theory Spec2Isabelle
  imports Main "HOL-Library.Signed_Division"
begin

section \<open>Machine integers\<close>

text \<open>
  The interpreter computes on C++ \<open>int\<close> (32 bits) and, inside \<open>expt\<close>, on
  \<open>long long\<close> (64 bits). Both are modelled as \<open>int\<close> with the two's complement
  wrap-around written out: \<open>wrap_int\<close> after every \<open>int\<close> operation, \<open>wrap_ll\<close>
  after every \<open>long long\<close> operation. Since wrapping commutes with \<open>+\<close>, \<open>-\<close> and
  \<open>*\<close>, one wrap around a whole C++ expression stands for the wrap of each of its
  steps. C++ \<open>/\<close> and \<open>%\<close> truncate towards zero: they are \<open>sdiv\<close> and \<open>smod\<close>.
  They do not wrap: \<open>INT_MIN / -1\<close> and \<open>INT_MIN % -1\<close> overflow, which is undefined
  behaviour, and the division instruction of the compiled program traps. The process is
  killed by the signal; this is the outcome \<open>Fault\<close> below, which is not an exception
  and which no handler of the interpreter catches.
\<close>

definition INT_MAX :: int where
  "INT_MAX = 2147483647"

definition INT_MIN :: int where
  "INT_MIN = - 2147483648"

definition is_int :: "int \<Rightarrow> bool" where
  "is_int x \<longleftrightarrow> INT_MIN \<le> x \<and> x \<le> INT_MAX"

definition wrap_int :: "int \<Rightarrow> int" where
  "wrap_int x = (x + 2147483648) mod 4294967296 - 2147483648"

definition wrap_ll :: "int \<Rightarrow> int" where
  "wrap_ll x = (x + 9223372036854775808) mod 18446744073709551616 - 9223372036854775808"

section \<open>Syntax, expressions and values\<close>

datatype error = RuntimeError string | Fault

text \<open>The syntax tree the reader hands to the parser (classes of \<open>syntax.hpp\<close>).\<close>

datatype Syntax =
    Number int
  | RationalSyntax int int
  | SymbolSyntax string
  | StringSyntax string
  | TrueSyntax
  | FalseSyntax
  | List "Syntax list"

text \<open>
  Expression nodes. The subclasses of \<open>Unary\<close>, \<open>Binary\<close> and \<open>Variadic\<close> share
  the \<open>eval\<close> of their base class and differ in \<open>evalRator\<close>: they are one
  constructor each, tagged with the operator. \<open>AndVar\<close> and \<open>OrVar\<close> define their
  own \<open>eval\<close>.
\<close>

datatype unop =
    Not_op | IsBoolean | IsFixnum | IsNull | IsPair | IsProcedure | IsSymbol | IsString
  | IsList | Car | Cdr | Display

datatype binop =
    Plus_op | Minus | Mult | Div | Modulo | Expt | Less | LessEq | Equal | GreaterEq | Greater
  | Cons_op | SetCar | SetCdr | IsEq

datatype varop =
    PlusVar | MinusVar | MultVar | DivVar | LessVar | LessEqVar | EqualVar | GreaterEqVar
  | GreaterVar | ListFunc

datatype Expr =
    Fixnum int
  | RationalNum int int
  | StringExpr string
  | True_e
  | False_e
  | MakeVoid
  | Exit
  | Var string
  | Unary unop Expr
  | Binary binop Expr Expr
  | Variadic varop "Expr list"
  | Begin "Expr list"
  | Quote Syntax
  | AndVar "Expr list"
  | OrVar "Expr list"
  | If_e Expr Expr Expr
  | Cond "Expr list list"
  | Lambda "string list" Expr
  | Apply Expr "Expr list"
  | Define string Expr
  | Let_e "(string \<times> Expr) list" Expr
  | Letrec "(string \<times> Expr) list" Expr
  | Set_e string Expr

text \<open>
  A \<open>Value\<close> is a shared pointer to a heap object: an address. An \<open>Assoc\<close> is a
  shared pointer to a chain of nodes \<open>(x, v, next)\<close>, of which only \<open>v\<close> is ever
  written after construction: the chain is the list of its names, each with the address of
  the cell that holds its \<open>v\<close>; the empty list is the null pointer.
\<close>

type_synonym Value = nat

type_synonym Assoc = "(string \<times> nat) list"

datatype ValueType =
    V_INT | V_RATIONAL | V_BOOL | V_SYM | V_NULL | V_STRING | V_PAIR | V_PROC | V_VOID
  | V_TERMINATE

datatype ValueBase =
    Integer int
  | Rational int int
  | String string
  | Symbol string
  | Boolean bool
  | Null
  | Pair_v Value Value
  | Procedure "string list" Expr Assoc
  | Void
  | Terminate

fun v_type :: "ValueBase \<Rightarrow> ValueType" where
  "v_type (Integer n) = V_INT"
| "v_type (Rational n d) = V_RATIONAL"
| "v_type (String s) = V_STRING"
| "v_type (Symbol s) = V_SYM"
| "v_type (Boolean b) = V_BOOL"
| "v_type Null = V_NULL"
| "v_type (Pair_v a d) = V_PAIR"
| "v_type (Procedure ps e env) = V_PROC"
| "v_type Void = V_VOID"
| "v_type Terminate = V_TERMINATE"

section \<open>Arithmetic and comparison helpers\<close>

fun addValues :: "ValueBase \<Rightarrow> ValueBase \<Rightarrow> error + ValueBase" where
  "addValues (Integer n1) (Integer n2) = Inr (Integer (wrap_int (n1 + n2)))"
| "addValues (Rational num1 den1) (Rational num2 den2) =
     Inr (Rational (wrap_int (num1 * den2 + num2 * den1)) (wrap_int (den1 * den2)))"
| "addValues (Integer n1) (Rational num2 den2) =
     Inr (Rational (wrap_int (n1 * den2 + num2)) den2)"
| "addValues (Rational num1 den1) (Integer n2) =
     Inr (Rational (wrap_int (num1 + n2 * den1)) den1)"
| "addValues v1 v2 = Inl (RuntimeError ''Cannot add non-numeric values'')"

fun subtractValues :: "ValueBase \<Rightarrow> ValueBase \<Rightarrow> error + ValueBase" where
  "subtractValues (Integer n1) (Integer n2) = Inr (Integer (wrap_int (n1 - n2)))"
| "subtractValues (Rational num1 den1) (Rational num2 den2) =
     Inr (Rational (wrap_int (num1 * den2 - num2 * den1)) (wrap_int (den1 * den2)))"
| "subtractValues (Integer n1) (Rational num2 den2) =
     Inr (Rational (wrap_int (n1 * den2 - num2)) den2)"
| "subtractValues (Rational num1 den1) (Integer n2) =
     Inr (Rational (wrap_int (num1 - n2 * den1)) den1)"
| "subtractValues v1 v2 = Inl (RuntimeError ''Cannot subtract non-numeric values'')"

fun multiplyValues :: "ValueBase \<Rightarrow> ValueBase \<Rightarrow> error + ValueBase" where
  "multiplyValues (Integer n1) (Integer n2) = Inr (Integer (wrap_int (n1 * n2)))"
| "multiplyValues (Rational num1 den1) (Rational num2 den2) =
     Inr (Rational (wrap_int (num1 * num2)) (wrap_int (den1 * den2)))"
| "multiplyValues (Integer n1) (Rational num2 den2) =
     Inr (Rational (wrap_int (n1 * num2)) den2)"
| "multiplyValues (Rational num1 den1) (Integer n2) =
     Inr (Rational (wrap_int (num1 * n2)) den1)"
| "multiplyValues v1 v2 = Inl (RuntimeError ''Cannot multiply non-numeric values'')"

fun divideValues :: "ValueBase \<Rightarrow> ValueBase \<Rightarrow> error + ValueBase" where
  "divideValues (Integer n1) (Integer n2) =
     (if n2 = 0 then Inl (RuntimeError ''Division by zero'')
      else if n1 = INT_MIN \<and> n2 = - 1 then Inl Fault
      else if n1 smod n2 = 0 then Inr (Integer (wrap_int (n1 sdiv n2)))
      else Inr (Rational n1 n2))"
| "divideValues (Rational num1 den1) (Rational num2 den2) =
     (if num2 = 0 then Inl (RuntimeError ''Division by zero'')
      else Inr (Rational (wrap_int (num1 * den2)) (wrap_int (den1 * num2))))"
| "divideValues (Integer n1) (Rational num2 den2) =
     (if num2 = 0 then Inl (RuntimeError ''Division by zero'')
      else Inr (Rational (wrap_int (n1 * den2)) num2))"
| "divideValues (Rational num1 den1) (Integer n2) =
     (if n2 = 0 then Inl (RuntimeError ''Division by zero'')
      else Inr (Rational num1 (wrap_int (den1 * n2))))"
| "divideValues v1 v2 = Inl (RuntimeError ''Cannot divide non-numeric values'')"

definition Modulo_evalRator :: "ValueBase \<Rightarrow> ValueBase \<Rightarrow> error + ValueBase" where
  "Modulo_evalRator rand1 rand2 =
     (case (rand1, rand2) of
        (Integer dividend, Integer divisor) \<Rightarrow>
          if divisor = 0 then Inl (RuntimeError ''Division by zero'')
          else if dividend = INT_MIN \<and> divisor = - 1 then Inl Fault
          else Inr (Integer (wrap_int (dividend smod divisor)))
      | _ \<Rightarrow> Inl (RuntimeError ''modulo is only defined for integers''))"

text \<open>
  The loop of \<open>Expt::evalRator\<close>: \<open>result\<close> and \<open>b\<close> are \<open>long long\<close>, \<open>exp\<close> is
  an \<open>int\<close>.
\<close>

function expt_loop :: "int \<Rightarrow> int \<Rightarrow> int \<Rightarrow> error + int" where
  "expt_loop result b exp =
     (if exp > 0 then
        (let result1 = (if exp smod 2 = 1 then wrap_ll (result * b) else result) in
         if exp smod 2 = 1 \<and> (result1 > INT_MAX \<or> result1 < INT_MIN)
         then Inl (RuntimeError ''Integer overflow in expt'')
         else
           (let b1 = wrap_ll (b * b) in
            if (b1 > INT_MAX \<or> b1 < INT_MIN) \<and> exp > 1
            then Inl (RuntimeError ''Integer overflow in expt'')
            else expt_loop result1 b1 (exp sdiv 2)))
      else Inr result)"
  by pat_completeness auto
termination
  by (relation "measure (\<lambda>(result, b, exp). nat exp)")
     (auto simp: signed_divide_int_def sgn_if)

declare expt_loop.simps [simp del]

definition Expt_evalRator :: "ValueBase \<Rightarrow> ValueBase \<Rightarrow> error + ValueBase" where
  "Expt_evalRator rand1 rand2 =
     (case (rand1, rand2) of
        (Integer base, Integer exponent) \<Rightarrow>
          if exponent < 0
          then Inl (RuntimeError ''Negative exponent not supported for integers'')
          else if base = 0 \<and> exponent = 0 then Inl (RuntimeError ''0^0 is undefined'')
          else (case expt_loop 1 base exponent of
                  Inl e \<Rightarrow> Inl e
                | Inr result \<Rightarrow> Inr (Integer (wrap_int result)))
      | _ \<Rightarrow> Inl (RuntimeError ''Wrong typename''))"

fun compareNumericValues :: "ValueBase \<Rightarrow> ValueBase \<Rightarrow> error + int" where
  "compareNumericValues (Integer n1) (Integer n2) =
     Inr (if n1 < n2 then - 1 else if n1 > n2 then 1 else 0)"
| "compareNumericValues (Rational num1 den1) (Integer n2) =
     (let left = num1; right = wrap_int (n2 * den1)
      in Inr (if left < right then - 1 else if left > right then 1 else 0))"
| "compareNumericValues (Integer n1) (Rational num2 den2) =
     (let left = wrap_int (n1 * den2); right = num2
      in Inr (if left < right then - 1 else if left > right then 1 else 0))"
| "compareNumericValues (Rational num1 den1) (Rational num2 den2) =
     (let left = wrap_int (num1 * den2); right = wrap_int (num2 * den1)
      in Inr (if left < right then - 1 else if left > right then 1 else 0))"
| "compareNumericValues v1 v2 = Inl (RuntimeError ''Wrong typename in numeric comparison'')"

definition Less_evalRator :: "ValueBase \<Rightarrow> ValueBase \<Rightarrow> error + ValueBase" where
  "Less_evalRator rand1 rand2 =
     (case compareNumericValues rand1 rand2 of
        Inl e \<Rightarrow> Inl e | Inr c \<Rightarrow> Inr (Boolean (c < 0)))"

definition LessEq_evalRator :: "ValueBase \<Rightarrow> ValueBase \<Rightarrow> error + ValueBase" where
  "LessEq_evalRator rand1 rand2 =
     (case compareNumericValues rand1 rand2 of
        Inl e \<Rightarrow> Inl e | Inr c \<Rightarrow> Inr (Boolean (c \<le> 0)))"

definition Equal_evalRator :: "ValueBase \<Rightarrow> ValueBase \<Rightarrow> error + ValueBase" where
  "Equal_evalRator rand1 rand2 =
     (case compareNumericValues rand1 rand2 of
        Inl e \<Rightarrow> Inl e | Inr c \<Rightarrow> Inr (Boolean (c = 0)))"

definition GreaterEq_evalRator :: "ValueBase \<Rightarrow> ValueBase \<Rightarrow> error + ValueBase" where
  "GreaterEq_evalRator rand1 rand2 =
     (case compareNumericValues rand1 rand2 of
        Inl e \<Rightarrow> Inl e | Inr c \<Rightarrow> Inr (Boolean (c \<ge> 0)))"

definition Greater_evalRator :: "ValueBase \<Rightarrow> ValueBase \<Rightarrow> error + ValueBase" where
  "Greater_evalRator rand1 rand2 =
     (case compareNumericValues rand1 rand2 of
        Inl e \<Rightarrow> Inl e | Inr c \<Rightarrow> Inr (Boolean (c > 0)))"

text \<open>The type predicates and \<open>not\<close> read one object and build a Boolean.\<close>

definition IsBoolean_evalRator :: "ValueBase \<Rightarrow> ValueBase" where
  "IsBoolean_evalRator rand = Boolean (v_type rand = V_BOOL)"

definition IsFixnum_evalRator :: "ValueBase \<Rightarrow> ValueBase" where
  "IsFixnum_evalRator rand = Boolean (v_type rand = V_INT)"

definition IsNull_evalRator :: "ValueBase \<Rightarrow> ValueBase" where
  "IsNull_evalRator rand = Boolean (v_type rand = V_NULL)"

definition IsPair_evalRator :: "ValueBase \<Rightarrow> ValueBase" where
  "IsPair_evalRator rand = Boolean (v_type rand = V_PAIR)"

definition IsProcedure_evalRator :: "ValueBase \<Rightarrow> ValueBase" where
  "IsProcedure_evalRator rand = Boolean (v_type rand = V_PROC)"

definition IsSymbol_evalRator :: "ValueBase \<Rightarrow> ValueBase" where
  "IsSymbol_evalRator rand = Boolean (v_type rand = V_SYM)"

definition IsString_evalRator :: "ValueBase \<Rightarrow> ValueBase" where
  "IsString_evalRator rand = Boolean (v_type rand = V_STRING)"

definition Not_evalRator :: "ValueBase \<Rightarrow> ValueBase" where
  "Not_evalRator rand = (case rand of Boolean b \<Rightarrow> Boolean (\<not> b) | _ \<Rightarrow> Boolean False)"

definition is_numeric :: "ValueBase \<Rightarrow> bool" where
  "is_numeric v \<longleftrightarrow> v_type v = V_INT \<or> v_type v = V_RATIONAL"


section \<open>The store\<close>

text \<open>
  Values and environment cells are shared and mutable (\<open>set-car!\<close>, \<open>set-cdr!\<close>,
  \<open>set!\<close>, \<open>letrec\<close>), and \<open>eq?\<close> compares addresses: the state holds the heap of
  value objects, the cells of the environment nodes and what was written to standard
  output. An object that is dropped stays in the heap; nothing refers to it.
\<close>

datatype out_event = Raw string | Shown Value

record state =
  objs :: "ValueBase list"
  cells :: "Value list"
  out :: "out_event list"

definition deref :: "state \<Rightarrow> Value \<Rightarrow> ValueBase" where
  "deref s v = objs s ! v"

definition alloc :: "ValueBase \<Rightarrow> state \<Rightarrow> Value \<times> state" where
  "alloc obj s = (length (objs s), s\<lparr>objs := objs s @ [obj]\<rparr>)"

text \<open>
  Modelled from the spec: the value constructors of \<open>value.cpp\<close> (\<open>IntegerV\<close>,
  \<open>RationalV\<close>, ...), each building one new object of the tagged union of section 3;
  a Rational keeps the numerator and denominator it is given (not reduced).
\<close>

definition IntegerV :: "int \<Rightarrow> state \<Rightarrow> Value \<times> state" where
  "IntegerV n = alloc (Integer n)"

definition RationalV :: "int \<Rightarrow> int \<Rightarrow> state \<Rightarrow> Value \<times> state" where
  "RationalV n d = alloc (Rational n d)"

definition StringV :: "string \<Rightarrow> state \<Rightarrow> Value \<times> state" where
  "StringV str = alloc (String str)"

definition SymbolV :: "string \<Rightarrow> state \<Rightarrow> Value \<times> state" where
  "SymbolV str = alloc (Symbol str)"

definition BooleanV :: "bool \<Rightarrow> state \<Rightarrow> Value \<times> state" where
  "BooleanV b = alloc (Boolean b)"

definition NullV :: "state \<Rightarrow> Value \<times> state" where
  "NullV = alloc Null"

definition PairV :: "Value \<Rightarrow> Value \<Rightarrow> state \<Rightarrow> Value \<times> state" where
  "PairV a d = alloc (Pair_v a d)"

definition ProcedureV :: "string list \<Rightarrow> Expr \<Rightarrow> Assoc \<Rightarrow> state \<Rightarrow> Value \<times> state" where
  "ProcedureV xs e env = alloc (Procedure xs e env)"

definition VoidV :: "state \<Rightarrow> Value \<times> state" where
  "VoidV = alloc Void"

definition TerminateV :: "state \<Rightarrow> Value \<times> state" where
  "TerminateV = alloc Terminate"

text \<open>
  Modelled from the spec: the environment functions of \<open>value.cpp\<close>. By section 3,
  extending is purely additive: \<open>extend\<close> builds one new node in front of the chain it
  is given and returns the new chain, leaving the old one as it was; lookup searches from
  the innermost node outwards and the first match wins; \<open>modify\<close> writes the cell of the
  first match in place and, by section 4.2 on \<open>set!\<close>, fails on an unbound name (the
  spec gives no message for it). \<open>find\<close> and \<open>empty\<close> are \<open>find_assoc\<close> and
  \<open>empty_assoc\<close> here; \<open>find_assoc\<close> returns the null pointer, \<open>None\<close>, for an unbound
  name.
\<close>

definition empty_assoc :: Assoc where
  "empty_assoc = []"

definition extend :: "string \<Rightarrow> Value \<Rightarrow> Assoc \<Rightarrow> state \<Rightarrow> Assoc \<times> state" where
  "extend x v lst s = ((x, length (cells s)) # lst, s\<lparr>cells := cells s @ [v]\<rparr>)"

definition find_assoc :: "string \<Rightarrow> Assoc \<Rightarrow> state \<Rightarrow> Value option" where
  "find_assoc x l s = (case map_of l x of None \<Rightarrow> None | Some c \<Rightarrow> Some (cells s ! c))"

definition modify :: "string \<Rightarrow> Value \<Rightarrow> Assoc \<Rightarrow> state \<Rightarrow> error + state" where
  "modify x v lst s =
     (case map_of lst x of
        None \<Rightarrow> Inl (RuntimeError ''Unbound variable'')
      | Some c \<Rightarrow> Inr (s\<lparr>cells := (cells s)[c := v]\<rparr>))"

section \<open>Results\<close>

text \<open>
  An evaluation may raise a \<open>RuntimeError\<close>, which keeps the state reached, or not
  return at all: with the recursion depth bounded by a fuel, \<open>None\<close> is "no result within
  the fuel".
\<close>

type_synonym 'a res = "((error + 'a) \<times> state) option"

definition ret :: "'a \<times> state \<Rightarrow> 'a res" where
  "ret p = Some (Inr (fst p), snd p)"

definition throw :: "string \<Rightarrow> state \<Rightarrow> 'a res" where
  "throw msg s = Some (Inl (RuntimeError msg), s)"

definition bind_res :: "'a res \<Rightarrow> ('a \<Rightarrow> state \<Rightarrow> 'b res) \<Rightarrow> 'b res" where
  "bind_res m f =
     (case m of
        None \<Rightarrow> None
      | Some (Inl e, s) \<Rightarrow> Some (Inl e, s)
      | Some (Inr v, s) \<Rightarrow> f v s)"

text \<open>A helper that builds an object, or raises, from two operands read in the heap.\<close>

definition new_value :: "error + ValueBase \<Rightarrow> state \<Rightarrow> Value res" where
  "new_value r s = (case r of Inl e \<Rightarrow> Some (Inl e, s) | Inr obj \<Rightarrow> ret (alloc obj s))"

section \<open>Primitive operators on the store\<close>

text \<open>
  The \<open>while\<close> loop of \<open>list?\<close> follows the \<open>cdr\<close> pointers until it meets an
  object that is not a Pair; on a cyclic chain it does not end. The fuel bounds its
  iterations, and \<open>None\<close> is "no result within the fuel".
\<close>

fun is_list_loop :: "nat \<Rightarrow> state \<Rightarrow> Value \<Rightarrow> Value option" where
  "is_list_loop 0 s current = None"
| "is_list_loop (Suc n) s current =
     (case deref s current of
        Pair_v a d \<Rightarrow> is_list_loop n s d
      | _ \<Rightarrow> Some current)"

definition IsList_evalRator :: "nat \<Rightarrow> Value \<Rightarrow> state \<Rightarrow> Value res" where
  "IsList_evalRator n rand s =
     (if v_type (deref s rand) = V_NULL then ret (BooleanV True s)
      else if v_type (deref s rand) \<noteq> V_PAIR then ret (BooleanV False s)
      else (case is_list_loop n s rand of
              None \<Rightarrow> None
            | Some current \<Rightarrow> ret (BooleanV (v_type (deref s current) = V_NULL) s)))"

definition Car_evalRator :: "Value \<Rightarrow> state \<Rightarrow> Value res" where
  "Car_evalRator rand s =
     (case deref s rand of
        Pair_v a d \<Rightarrow> ret (a, s)
      | _ \<Rightarrow> throw ''car requires a pair'' s)"

definition Cdr_evalRator :: "Value \<Rightarrow> state \<Rightarrow> Value res" where
  "Cdr_evalRator rand s =
     (case deref s rand of
        Pair_v a d \<Rightarrow> ret (d, s)
      | _ \<Rightarrow> throw ''cdr requires a pair'' s)"

definition Display_evalRator :: "Value \<Rightarrow> state \<Rightarrow> Value res" where
  "Display_evalRator rand s =
     (case deref s rand of
        String str \<Rightarrow> ret (VoidV (s\<lparr>out := out s @ [Raw str]\<rparr>))
      | _ \<Rightarrow> ret (VoidV (s\<lparr>out := out s @ [Shown rand]\<rparr>)))"

fun Unary_evalRator :: "nat \<Rightarrow> unop \<Rightarrow> Value \<Rightarrow> state \<Rightarrow> Value res" where
  "Unary_evalRator n Not_op rand s = ret (alloc (Not_evalRator (deref s rand)) s)"
| "Unary_evalRator n IsBoolean rand s = ret (alloc (IsBoolean_evalRator (deref s rand)) s)"
| "Unary_evalRator n IsFixnum rand s = ret (alloc (IsFixnum_evalRator (deref s rand)) s)"
| "Unary_evalRator n IsNull rand s = ret (alloc (IsNull_evalRator (deref s rand)) s)"
| "Unary_evalRator n IsPair rand s = ret (alloc (IsPair_evalRator (deref s rand)) s)"
| "Unary_evalRator n IsProcedure rand s = ret (alloc (IsProcedure_evalRator (deref s rand)) s)"
| "Unary_evalRator n IsSymbol rand s = ret (alloc (IsSymbol_evalRator (deref s rand)) s)"
| "Unary_evalRator n IsString rand s = ret (alloc (IsString_evalRator (deref s rand)) s)"
| "Unary_evalRator n IsList rand s = IsList_evalRator n rand s"
| "Unary_evalRator n Car rand s = Car_evalRator rand s"
| "Unary_evalRator n Cdr rand s = Cdr_evalRator rand s"
| "Unary_evalRator n Display rand s = Display_evalRator rand s"

definition SetCar_evalRator :: "Value \<Rightarrow> Value \<Rightarrow> state \<Rightarrow> Value res" where
  "SetCar_evalRator rand1 rand2 s =
     (case deref s rand1 of
        Pair_v a d \<Rightarrow> ret (VoidV (s\<lparr>objs := (objs s)[rand1 := Pair_v rand2 d]\<rparr>))
      | _ \<Rightarrow> throw ''set-car! requires a pair'' s)"

definition SetCdr_evalRator :: "Value \<Rightarrow> Value \<Rightarrow> state \<Rightarrow> Value res" where
  "SetCdr_evalRator rand1 rand2 s =
     (case deref s rand1 of
        Pair_v a d \<Rightarrow> ret (VoidV (s\<lparr>objs := (objs s)[rand1 := Pair_v a rand2]\<rparr>))
      | _ \<Rightarrow> throw ''set-cdr! requires a pair'' s)"

definition IsEq_evalRator :: "Value \<Rightarrow> Value \<Rightarrow> state \<Rightarrow> Value res" where
  "IsEq_evalRator rand1 rand2 s =
     (case (deref s rand1, deref s rand2) of
        (Integer n1, Integer n2) \<Rightarrow> ret (BooleanV (n1 = n2) s)
      | (Boolean b1, Boolean b2) \<Rightarrow> ret (BooleanV (b1 = b2) s)
      | (Symbol s1, Symbol s2) \<Rightarrow> ret (BooleanV (s1 = s2) s)
      | (Null, Null) \<Rightarrow> ret (BooleanV True s)
      | (Void, Void) \<Rightarrow> ret (BooleanV True s)
      | _ \<Rightarrow> ret (BooleanV (rand1 = rand2) s))"

fun Binary_evalRator :: "binop \<Rightarrow> Value \<Rightarrow> Value \<Rightarrow> state \<Rightarrow> Value res" where
  "Binary_evalRator Plus_op rand1 rand2 s = new_value (addValues (deref s rand1) (deref s rand2)) s"
| "Binary_evalRator Minus rand1 rand2 s =
     new_value (subtractValues (deref s rand1) (deref s rand2)) s"
| "Binary_evalRator Mult rand1 rand2 s =
     new_value (multiplyValues (deref s rand1) (deref s rand2)) s"
| "Binary_evalRator Div rand1 rand2 s = new_value (divideValues (deref s rand1) (deref s rand2)) s"
| "Binary_evalRator Modulo rand1 rand2 s =
     new_value (Modulo_evalRator (deref s rand1) (deref s rand2)) s"
| "Binary_evalRator Expt rand1 rand2 s =
     new_value (Expt_evalRator (deref s rand1) (deref s rand2)) s"
| "Binary_evalRator Less rand1 rand2 s =
     new_value (Less_evalRator (deref s rand1) (deref s rand2)) s"
| "Binary_evalRator LessEq rand1 rand2 s =
     new_value (LessEq_evalRator (deref s rand1) (deref s rand2)) s"
| "Binary_evalRator Equal rand1 rand2 s =
     new_value (Equal_evalRator (deref s rand1) (deref s rand2)) s"
| "Binary_evalRator GreaterEq rand1 rand2 s =
     new_value (GreaterEq_evalRator (deref s rand1) (deref s rand2)) s"
| "Binary_evalRator Greater rand1 rand2 s =
     new_value (Greater_evalRator (deref s rand1) (deref s rand2)) s"
| "Binary_evalRator Cons_op rand1 rand2 s = ret (PairV rand1 rand2 s)"
| "Binary_evalRator SetCar rand1 rand2 s = SetCar_evalRator rand1 rand2 s"
| "Binary_evalRator SetCdr rand1 rand2 s = SetCdr_evalRator rand1 rand2 s"
| "Binary_evalRator IsEq rand1 rand2 s = IsEq_evalRator rand1 rand2 s"

text \<open>
  The variadic arithmetic operators fold a helper over the arguments, each step building
  a new object from the running result and the next argument.
\<close>

fun fold_values ::
  "(ValueBase \<Rightarrow> ValueBase \<Rightarrow> error + ValueBase) \<Rightarrow> Value \<Rightarrow> Value list \<Rightarrow> state \<Rightarrow> Value res"
where
  "fold_values f result [] s = ret (result, s)"
| "fold_values f result (a # args) s =
     bind_res (new_value (f (deref s result) (deref s a)) s) (\<lambda>r s1. fold_values f r args s1)"

definition PlusVar_evalRator :: "Value list \<Rightarrow> state \<Rightarrow> Value res" where
  "PlusVar_evalRator args s =
     (case args of
        [] \<Rightarrow> ret (IntegerV 0 s)
      | a # rest \<Rightarrow> (let (result, s1) = IntegerV 0 s in fold_values addValues a rest s1))"

definition MinusVar_evalRator :: "Value list \<Rightarrow> state \<Rightarrow> Value res" where
  "MinusVar_evalRator args s =
     (case args of
        [] \<Rightarrow> throw ''- requires at least 1 argument'' s
      | [a] \<Rightarrow>
          (case deref s a of
             Integer n \<Rightarrow> ret (IntegerV (wrap_int (- n)) s)
           | Rational num den \<Rightarrow> ret (RationalV (wrap_int (- num)) den s)
           | _ \<Rightarrow> throw ''Cannot negate non-numeric value'' s)
      | a # rest \<Rightarrow> fold_values subtractValues a rest s)"

definition MultVar_evalRator :: "Value list \<Rightarrow> state \<Rightarrow> Value res" where
  "MultVar_evalRator args s =
     (case args of
        [] \<Rightarrow> ret (IntegerV 1 s)
      | a # rest \<Rightarrow> (let (result, s1) = IntegerV 1 s in fold_values multiplyValues result args s1))"

definition DivVar_evalRator :: "Value list \<Rightarrow> state \<Rightarrow> Value res" where
  "DivVar_evalRator args s =
     (case args of
        [] \<Rightarrow> throw ''/ requires at least 1 argument'' s
      | [a] \<Rightarrow>
          (case deref s a of
             Integer n \<Rightarrow>
               if n = 0 then throw ''Division by zero'' s else ret (RationalV 1 n s)
           | Rational num den \<Rightarrow>
               if num = 0 then throw ''Division by zero'' s else ret (RationalV den num s)
           | _ \<Rightarrow> throw ''Cannot compute reciprocal of non-numeric value'' s)
      | a # rest \<Rightarrow> fold_values divideValues a rest s)"

text \<open>
  The variadic comparisons walk the adjacent pairs from the left and stop at the first
  pair for which \<open>fails\<close> holds of the comparison result.
\<close>

fun compare_adjacent :: "(int \<Rightarrow> bool) \<Rightarrow> ValueBase list \<Rightarrow> error + bool" where
  "compare_adjacent fails (a # b # rest) =
     (case compareNumericValues a b of
        Inl e \<Rightarrow> Inl e
      | Inr c \<Rightarrow> if fails c then Inr False else compare_adjacent fails (b # rest))"
| "compare_adjacent fails args = Inr True"

definition compare_var ::
  "string \<Rightarrow> (int \<Rightarrow> bool) \<Rightarrow> Value list \<Rightarrow> state \<Rightarrow> Value res" where
  "compare_var name fails args s =
     (if length args < 2 then throw (name @ '' requires at least 2 arguments'') s
      else (case compare_adjacent fails (map (deref s) args) of
              Inl e \<Rightarrow> Some (Inl e, s)
            | Inr b \<Rightarrow> ret (BooleanV b s)))"

fun list_loop :: "Value list \<Rightarrow> state \<Rightarrow> Value \<times> state" where
  "list_loop [] s = NullV s"
| "list_loop (a # args) s = (let (result, s1) = list_loop args s in PairV a result s1)"

fun Variadic_evalRator :: "varop \<Rightarrow> Value list \<Rightarrow> state \<Rightarrow> Value res" where
  "Variadic_evalRator PlusVar args s = PlusVar_evalRator args s"
| "Variadic_evalRator MinusVar args s = MinusVar_evalRator args s"
| "Variadic_evalRator MultVar args s = MultVar_evalRator args s"
| "Variadic_evalRator DivVar args s = DivVar_evalRator args s"
| "Variadic_evalRator LessVar args s = compare_var ''<'' (\<lambda>c. c \<ge> 0) args s"
| "Variadic_evalRator LessEqVar args s = compare_var ''<='' (\<lambda>c. c > 0) args s"
| "Variadic_evalRator EqualVar args s = compare_var ''='' (\<lambda>c. c \<noteq> 0) args s"
| "Variadic_evalRator GreaterEqVar args s = compare_var ''>='' (\<lambda>c. c < 0) args s"
| "Variadic_evalRator GreaterVar args s = compare_var ''>'' (\<lambda>c. c \<le> 0) args s"
| "Variadic_evalRator ListFunc args s = ret (list_loop args s)"

section \<open>Primitive and reserved-word tables\<close>

datatype ExprType =
    E_PLUS | E_MINUS | E_MUL | E_DIV | E_MODULO | E_EXPT | E_LIST
  | E_LT | E_LE | E_EQ | E_GE | E_GT | E_AND | E_OR | E_NOT
  | E_EQQ | E_BOOLQ | E_INTQ | E_NULLQ | E_PAIRQ | E_PROCQ | E_SYMBOLQ | E_STRINGQ | E_LISTQ
  | E_CONS | E_CAR | E_CDR | E_SETCAR | E_SETCDR | E_DISPLAY | E_VOID | E_EXIT
  | E_QUOTE | E_BEGIN | E_IF | E_COND | E_LAMBDA | E_DEFINE | E_LET | E_LETREC | E_SET

text \<open>
  Modelled from the spec: the tables \<open>primitives\<close> and \<open>reserved_words\<close> are declared
  \<open>extern\<close> in the sources at hand and defined elsewhere. Their keys are the operator
  names of the primitive table of section 6 and the reserved words listed below it; each
  is mapped to the tag under which \<open>List::parse\<close> dispatches it.
\<close>

definition primitives :: "(string \<times> ExprType) list" where
  "primitives =
     [(''+'', E_PLUS), (''-'', E_MINUS), (''*'', E_MUL), (''/'', E_DIV),
      (''modulo'', E_MODULO), (''expt'', E_EXPT), (''cons'', E_CONS),
      (''set-car!'', E_SETCAR), (''set-cdr!'', E_SETCDR), (''eq?'', E_EQQ),
      (''<'', E_LT), (''<='', E_LE), (''='', E_EQ), (''>='', E_GE), (''>'', E_GT),
      (''not'', E_NOT), (''boolean?'', E_BOOLQ), (''number?'', E_INTQ),
      (''null?'', E_NULLQ), (''pair?'', E_PAIRQ), (''procedure?'', E_PROCQ),
      (''symbol?'', E_SYMBOLQ), (''string?'', E_STRINGQ), (''list?'', E_LISTQ),
      (''car'', E_CAR), (''cdr'', E_CDR), (''display'', E_DISPLAY),
      (''list'', E_LIST), (''and'', E_AND), (''or'', E_OR),
      (''void'', E_VOID), (''exit'', E_EXIT)]"

definition reserved_words :: "(string \<times> ExprType) list" where
  "reserved_words =
     [(''quote'', E_QUOTE), (''if'', E_IF), (''cond'', E_COND), (''lambda'', E_LAMBDA),
      (''define'', E_DEFINE), (''let'', E_LET), (''letrec'', E_LETREC), (''set!'', E_SET),
      (''begin'', E_BEGIN)]"

section \<open>The evaluator\<close>

text \<open>
  \<open>syntaxToValue\<close> turns quoted syntax into a value; its loop over a list runs from
  the last element to the first, each step building a Pair in front of the result so far.
\<close>

fun syntaxToValue :: "Syntax \<Rightarrow> state \<Rightarrow> Value \<times> state"
  and syntaxToValue_loop :: "Syntax list \<Rightarrow> state \<Rightarrow> Value \<times> state" where
  "syntaxToValue (Number n) s = IntegerV n s"
| "syntaxToValue (RationalSyntax n d) s = RationalV n d s"
| "syntaxToValue (StringSyntax str) s = StringV str s"
| "syntaxToValue (SymbolSyntax str) s = SymbolV str s"
| "syntaxToValue TrueSyntax s = BooleanV True s"
| "syntaxToValue FalseSyntax s = BooleanV False s"
| "syntaxToValue (List stxs) s = syntaxToValue_loop stxs s"
| "syntaxToValue_loop [] s = NullV s"
| "syntaxToValue_loop (stx # stxs) s =
     (let (result, s1) = syntaxToValue_loop stxs s;
          (v, s2) = syntaxToValue stx s1
      in PairV v result s2)"

text \<open>
  The loops of the \<open>eval\<close> methods, over the evaluator \<open>ev\<close> of the subexpressions.
  The loops evaluate their operands from left to right. For the two operands of a
  \<open>Binary\<close> node, which are arguments of one call, C++ leaves the order open; the
  model takes the second operand first, the order g++ gives the arguments of a call.
\<close>

fun eval_rands ::
  "(Expr \<Rightarrow> Assoc \<Rightarrow> state \<Rightarrow> Value res) \<Rightarrow> Expr list \<Rightarrow> Assoc \<Rightarrow> state \<Rightarrow> Value list res"
where
  "eval_rands ev [] e s = ret ([], s)"
| "eval_rands ev (r # rands) e s =
     bind_res (ev r e s) (\<lambda>v s1.
     bind_res (eval_rands ev rands e s1) (\<lambda>args s2. ret (v # args, s2)))"

fun begin_loop ::
  "(Expr \<Rightarrow> Assoc \<Rightarrow> state \<Rightarrow> Value res) \<Rightarrow> Expr list \<Rightarrow> Assoc \<Rightarrow> Value \<Rightarrow> state \<Rightarrow> Value res"
where
  "begin_loop ev [] e result s = ret (result, s)"
| "begin_loop ev (expr # es) e result s =
     bind_res (ev expr e s) (\<lambda>result1 s1. begin_loop ev es e result1 s1)"

definition is_false :: "ValueBase \<Rightarrow> bool" where
  "is_false v = (case v of Boolean b \<Rightarrow> \<not> b | _ \<Rightarrow> False)"

fun and_loop ::
  "(Expr \<Rightarrow> Assoc \<Rightarrow> state \<Rightarrow> Value res) \<Rightarrow> Expr list \<Rightarrow> Assoc \<Rightarrow> Value \<Rightarrow> state \<Rightarrow> Value res"
where
  "and_loop ev [] e result s = ret (result, s)"
| "and_loop ev (expr # rands) e result s =
     bind_res (ev expr e s) (\<lambda>result1 s1.
       if is_false (deref s1 result1) then ret (BooleanV False s1)
       else and_loop ev rands e result1 s1)"

fun or_loop ::
  "(Expr \<Rightarrow> Assoc \<Rightarrow> state \<Rightarrow> Value res) \<Rightarrow> Expr list \<Rightarrow> Assoc \<Rightarrow> state \<Rightarrow> Value res"
where
  "or_loop ev [] e s = ret (BooleanV False s)"
| "or_loop ev (expr # rands) e s =
     bind_res (ev expr e s) (\<lambda>result s1.
       if is_false (deref s1 result) then or_loop ev rands e s1
       else ret (result, s1))"

fun cond_loop ::
  "(Expr \<Rightarrow> Assoc \<Rightarrow> state \<Rightarrow> Value res) \<Rightarrow> Expr list list \<Rightarrow> Assoc \<Rightarrow> state \<Rightarrow> Value res"
where
  "cond_loop ev [] env s = ret (VoidV s)"
| "cond_loop ev ([] # clauses) env s = cond_loop ev clauses env s"
| "cond_loop ev ((test # body) # clauses) env s =
     bind_res (ev test env s) (\<lambda>condValue s1.
       if \<not> is_false (deref s1 condValue) then
         (if body = [] then ret (condValue, s1)
          else (let (result, s2) = VoidV s1 in begin_loop ev body env result s2))
       else cond_loop ev clauses env s1)"

fun extend_parameters :: "string list \<Rightarrow> Value list \<Rightarrow> Assoc \<Rightarrow> state \<Rightarrow> Assoc \<times> state" where
  "extend_parameters (x # parameters) (v # args) param_env s =
     (let (param_env1, s1) = extend x v param_env s
      in extend_parameters parameters args param_env1 s1)"
| "extend_parameters parameters args param_env s = (param_env, s)"

fun let_loop ::
  "(Expr \<Rightarrow> Assoc \<Rightarrow> state \<Rightarrow> Value res) \<Rightarrow> (string \<times> Expr) list \<Rightarrow> Assoc \<Rightarrow> Assoc \<Rightarrow> state
   \<Rightarrow> Assoc res"
where
  "let_loop ev [] env newEnv s = ret (newEnv, s)"
| "let_loop ev (binding # bind) env newEnv s =
     bind_res (ev (snd binding) env s) (\<lambda>v s1.
       let (newEnv1, s2) = extend (fst binding) v newEnv s1
       in let_loop ev bind env newEnv1 s2)"

fun letrec_placeholders :: "(string \<times> Expr) list \<Rightarrow> Assoc \<Rightarrow> state \<Rightarrow> Assoc \<times> state" where
  "letrec_placeholders [] newEnv s = (newEnv, s)"
| "letrec_placeholders (binding # bind) newEnv s =
     (let (null, s1) = NullV s;
          (newEnv1, s2) = extend (fst binding) null newEnv s1
      in letrec_placeholders bind newEnv1 s2)"

fun letrec_loop ::
  "(Expr \<Rightarrow> Assoc \<Rightarrow> state \<Rightarrow> Value res) \<Rightarrow> (string \<times> Expr) list \<Rightarrow> Assoc \<Rightarrow> state \<Rightarrow> unit res"
where
  "letrec_loop ev [] newEnv s = ret ((), s)"
| "letrec_loop ev (binding # bind) newEnv s =
     bind_res (ev (snd binding) newEnv s) (\<lambda>v s1.
       case modify (fst binding) v newEnv s1 of
         Inl err \<Rightarrow> Some (Inl err, s1)
       | Inr s2 \<Rightarrow> letrec_loop ev bind newEnv s2)"

text \<open>
  \<open>eval n\<close> evaluates with recursion depth at most \<open>n\<close>. \<open>Define::eval\<close> calls
  \<open>extend\<close> and drops the chain it returns. In \<open>AndVar::eval\<close> the test for no
  operands comes after the loop; in \<open>OrVar::eval\<close> it sits inside the loop, where it
  never holds.
\<close>

primrec eval :: "nat \<Rightarrow> Expr \<Rightarrow> Assoc \<Rightarrow> state \<Rightarrow> Value res" where
  "eval 0 expr e s = None"
| "eval (Suc n) expr e s =
     (case expr of
        Fixnum k \<Rightarrow> ret (IntegerV k s)
      | RationalNum numerator denominator \<Rightarrow> ret (RationalV numerator denominator s)
      | StringExpr str \<Rightarrow> ret (StringV str s)
      | True_e \<Rightarrow> ret (BooleanV True s)
      | False_e \<Rightarrow> ret (BooleanV False s)
      | MakeVoid \<Rightarrow> ret (VoidV s)
      | Exit \<Rightarrow> ret (TerminateV s)
      | Var x \<Rightarrow>
          (case find_assoc x e s of
             None \<Rightarrow>
               if map_of primitives x \<noteq> None
               then throw (''Primitive '' @ x @ '' used as variable without being called'') s
               else throw (''Undefined variable: '' @ x) s
           | Some matched_value \<Rightarrow> ret (matched_value, s))
      | Unary op rand \<Rightarrow>
          bind_res (eval n rand e s) (\<lambda>v s1. Unary_evalRator n op v s1)
      | Binary op rand1 rand2 \<Rightarrow>
          bind_res (eval n rand2 e s) (\<lambda>v2 s1.
          bind_res (eval n rand1 e s1) (\<lambda>v1 s2. Binary_evalRator op v1 v2 s2))
      | Variadic op rands \<Rightarrow>
          bind_res (eval_rands (eval n) rands e s) (\<lambda>args s1. Variadic_evalRator op args s1)
      | Begin es \<Rightarrow>
          (if es = [] then ret (VoidV s)
           else (let (result, s0) = VoidV s in begin_loop (eval n) es e result s0))
      | Quote stx \<Rightarrow> ret (syntaxToValue stx s)
      | AndVar rands \<Rightarrow>
          (let (result, s0) = BooleanV True s in
           bind_res (and_loop (eval n) rands e result s0) (\<lambda>result1 s1.
             if rands = [] then ret (BooleanV True s1) else ret (result1, s1)))
      | OrVar rands \<Rightarrow> or_loop (eval n) rands e s
      | If_e cond conseq alter \<Rightarrow>
          bind_res (eval n cond e s) (\<lambda>condValue s1.
            if \<not> is_false (deref s1 condValue) then eval n conseq e s1
            else eval n alter e s1)
      | Cond clauses \<Rightarrow> cond_loop (eval n) clauses e s
      | Lambda x body \<Rightarrow> ret (ProcedureV x body e s)
      | Apply rator rand \<Rightarrow>
          bind_res (eval n rator e s) (\<lambda>ratorValue s1.
            case deref s1 ratorValue of
              Procedure parameters body clos_env \<Rightarrow>
                bind_res (eval_rands (eval n) rand e s1) (\<lambda>args s2.
                  if length args \<noteq> length parameters
                  then throw ''Wrong number of arguments'' s2
                  else (let (param_env, s3) = extend_parameters parameters args clos_env s2
                        in eval n body param_env s3))
            | _ \<Rightarrow> throw ''Attempt to apply a non-procedure'' s1)
      | Define var ex \<Rightarrow>
          bind_res (eval n ex e s) (\<lambda>v s1.
            let (dropped, s2) = extend var v e s1 in ret (VoidV s2))
      | Let_e bind body \<Rightarrow>
          bind_res (let_loop (eval n) bind e e s) (\<lambda>newEnv s1. eval n body newEnv s1)
      | Letrec bind body \<Rightarrow>
          (let (newEnv, s0) = letrec_placeholders bind e s in
           bind_res (letrec_loop (eval n) bind newEnv s0) (\<lambda>u s1. eval n body newEnv s1))
      | Set_e var ex \<Rightarrow>
          bind_res (eval n ex e s) (\<lambda>v s1.
            case modify var v e s1 of
              Inl err \<Rightarrow> Some (Inl err, s1)
            | Inr s2 \<Rightarrow> ret (VoidV s2)))"

section \<open>The parser\<close>

definition bind_sum :: "error + 'a \<Rightarrow> ('a \<Rightarrow> error + 'b) \<Rightarrow> error + 'b" where
  "bind_sum m f = (case m of Inl e \<Rightarrow> Inl e | Inr x \<Rightarrow> f x)"

text \<open>The arity patterns of the primitive dispatch.\<close>

definition binary_or_variadic :: "binop \<Rightarrow> varop \<Rightarrow> Expr list \<Rightarrow> error + Expr" where
  "binary_or_variadic bop vop parameters =
     (case parameters of
        [p0, p1] \<Rightarrow> Inr (Binary bop p0 p1)
      | _ \<Rightarrow> Inr (Variadic vop parameters))"

definition exactly_one :: "string \<Rightarrow> unop \<Rightarrow> Expr list \<Rightarrow> error + Expr" where
  "exactly_one name uop parameters =
     (case parameters of
        [p0] \<Rightarrow> Inr (Unary uop p0)
      | _ \<Rightarrow> Inl (RuntimeError (''Wrong number of arguments for '' @ name)))"

definition exactly_two :: "string \<Rightarrow> binop \<Rightarrow> Expr list \<Rightarrow> error + Expr" where
  "exactly_two name bop parameters =
     (case parameters of
        [p0, p1] \<Rightarrow> Inr (Binary bop p0 p1)
      | _ \<Rightarrow> Inl (RuntimeError (''Wrong number of arguments for '' @ name)))"

definition exactly_zero :: "string \<Rightarrow> Expr \<Rightarrow> Expr list \<Rightarrow> error + Expr" where
  "exactly_zero name node parameters =
     (if parameters \<noteq> [] then Inl (RuntimeError (''Wrong number of arguments for '' @ name))
      else Inr node)"

fun parse_primitive :: "string \<Rightarrow> ExprType \<Rightarrow> Expr list \<Rightarrow> error + Expr" where
  "parse_primitive op E_PLUS parameters = binary_or_variadic Plus_op PlusVar parameters"
| "parse_primitive op E_MINUS parameters = binary_or_variadic Minus MinusVar parameters"
| "parse_primitive op E_MUL parameters = binary_or_variadic Mult MultVar parameters"
| "parse_primitive op E_DIV parameters = binary_or_variadic Div DivVar parameters"
| "parse_primitive op E_MODULO parameters = exactly_two ''modulo'' Modulo parameters"
| "parse_primitive op E_EXPT parameters = exactly_two ''expt'' Expt parameters"
| "parse_primitive op E_LIST parameters = Inr (Variadic ListFunc parameters)"
| "parse_primitive op E_LT parameters = binary_or_variadic Less LessVar parameters"
| "parse_primitive op E_LE parameters = binary_or_variadic LessEq LessEqVar parameters"
| "parse_primitive op E_EQ parameters = binary_or_variadic Equal EqualVar parameters"
| "parse_primitive op E_GE parameters = binary_or_variadic GreaterEq GreaterEqVar parameters"
| "parse_primitive op E_GT parameters = binary_or_variadic Greater GreaterVar parameters"
| "parse_primitive op E_AND parameters = Inr (AndVar parameters)"
| "parse_primitive op E_OR parameters = Inr (OrVar parameters)"
| "parse_primitive op E_NOT parameters = exactly_one ''not'' Not_op parameters"
| "parse_primitive op E_EQQ parameters = exactly_two ''eq?'' IsEq parameters"
| "parse_primitive op E_BOOLQ parameters = exactly_one ''boolean?'' IsBoolean parameters"
| "parse_primitive op E_INTQ parameters = exactly_one ''number?'' IsFixnum parameters"
| "parse_primitive op E_NULLQ parameters = exactly_one ''null?'' IsNull parameters"
| "parse_primitive op E_PAIRQ parameters = exactly_one ''pair?'' IsPair parameters"
| "parse_primitive op E_PROCQ parameters = exactly_one ''procedure?'' IsProcedure parameters"
| "parse_primitive op E_SYMBOLQ parameters = exactly_one ''symbol?'' IsSymbol parameters"
| "parse_primitive op E_STRINGQ parameters = exactly_one ''string?'' IsString parameters"
| "parse_primitive op E_LISTQ parameters = exactly_one ''list?'' IsList parameters"
| "parse_primitive op E_CONS parameters = exactly_two ''cons'' Cons_op parameters"
| "parse_primitive op E_CAR parameters = exactly_one ''car'' Car parameters"
| "parse_primitive op E_CDR parameters = exactly_one ''cdr'' Cdr parameters"
| "parse_primitive op E_SETCAR parameters = exactly_two ''set-car!'' SetCar parameters"
| "parse_primitive op E_SETCDR parameters = exactly_two ''set-cdr!'' SetCdr parameters"
| "parse_primitive op E_DISPLAY parameters = exactly_one ''display'' Display parameters"
| "parse_primitive op E_VOID parameters = exactly_zero ''(void)'' MakeVoid parameters"
| "parse_primitive op E_EXIT parameters = exactly_zero ''(exit)'' Exit parameters"
| "parse_primitive op other parameters = Inl (RuntimeError (''Unknown primitive: '' @ op))"

text \<open>The names of a list of symbols; \<open>msg\<close> is raised at the first non-symbol.\<close>

fun symbol_names :: "string \<Rightarrow> Syntax list \<Rightarrow> error + string list" where
  "symbol_names msg [] = Inr []"
| "symbol_names msg (stx # stxs) =
     (case stx of
        SymbolSyntax x \<Rightarrow> bind_sum (symbol_names msg stxs) (\<lambda>xs. Inr (x # xs))
      | _ \<Rightarrow> Inl (RuntimeError msg))"

text \<open>
  \<open>parse\<close> reads the environment only to ask whether the head symbol of a list is bound.
  Its last case is the default of \<open>List::parse\<close>: a head symbol that is neither bound,
  nor a primitive, nor a reserved word makes an application of the variable. The three
  parts of an \<open>if\<close> are arguments of one constructor call, for which C++ leaves the
  order open; the model parses the last part first, the order g++ gives the arguments of
  a call (it decides which message is raised when more than one part fails).
\<close>

function (sequential) parse :: "Syntax \<Rightarrow> Assoc \<Rightarrow> state \<Rightarrow> error + Expr"
  and parse_rands :: "Syntax list \<Rightarrow> Assoc \<Rightarrow> state \<Rightarrow> error + Expr list"
  and parse_clauses :: "Syntax list \<Rightarrow> Assoc \<Rightarrow> state \<Rightarrow> error + Expr list list"
  and parse_bindings :: "Syntax list \<Rightarrow> Assoc \<Rightarrow> state \<Rightarrow> error + (string \<times> Expr) list"
where
  "parse (Number n) env s = Inr (Fixnum n)"
| "parse (RationalSyntax numerator denominator) env s = Inr (RationalNum numerator denominator)"
| "parse (SymbolSyntax x) env s = Inr (Var x)"
| "parse (StringSyntax str) env s = Inr (StringExpr str)"
| "parse TrueSyntax env s = Inr True_e"
| "parse FalseSyntax env s = Inr False_e"
| "parse (List []) env s = Inr (Quote (List []))"
| "parse (List (head # rest)) env s =
     (case head of
        SymbolSyntax op \<Rightarrow>
          if find_assoc op env s \<noteq> None then
            bind_sum (parse_rands rest env s) (\<lambda>rand. Inr (Apply (Var op) rand))
          else if map_of primitives op \<noteq> None then
            bind_sum (parse_rands rest env s) (\<lambda>parameters.
              parse_primitive op (the (map_of primitives op)) parameters)
          else if map_of reserved_words op \<noteq> None then
            (case the (map_of reserved_words op) of
               E_QUOTE \<Rightarrow>
                 (case rest of
                    [stx] \<Rightarrow> Inr (Quote stx)
                  | _ \<Rightarrow> Inl (RuntimeError ''Wrong number of arguments for quote''))
             | E_BEGIN \<Rightarrow> bind_sum (parse_rands rest env s) (\<lambda>es. Inr (Begin es))
             | E_IF \<Rightarrow>
                 (case rest of
                    [c, t, a] \<Rightarrow>
                      bind_sum (parse a env s) (\<lambda>alter.
                      bind_sum (parse t env s) (\<lambda>conseq.
                      bind_sum (parse c env s) (\<lambda>cond. Inr (If_e cond conseq alter))))
                  | _ \<Rightarrow> Inl (RuntimeError ''Wrong number of arguments for if''))
             | E_COND \<Rightarrow> bind_sum (parse_clauses rest env s) (\<lambda>clauses. Inr (Cond clauses))
             | E_LAMBDA \<Rightarrow>
                 (case rest of
                    [ps, b] \<Rightarrow>
                      (case ps of
                         List paramsList \<Rightarrow>
                           bind_sum (symbol_names ''Lambda parameters must be symbols'' paramsList)
                             (\<lambda>params.
                           bind_sum (parse b env s) (\<lambda>body. Inr (Lambda params body)))
                       | _ \<Rightarrow> Inl (RuntimeError ''Lambda parameters must be a list''))
                  | _ \<Rightarrow> Inl (RuntimeError ''Wrong number of arguments for lambda''))
             | E_DEFINE \<Rightarrow>
                 (case rest of
                    [target, b] \<Rightarrow>
                      (case target of
                         SymbolSyntax var \<Rightarrow>
                           bind_sum (parse b env s) (\<lambda>ex. Inr (Define var ex))
                       | List defList \<Rightarrow>
                           (case defList of
                              [] \<Rightarrow> Inl (RuntimeError ''Invalid define syntax'')
                            | f # ps \<Rightarrow>
                                (case f of
                                   SymbolSyntax funcName \<Rightarrow>
                                     bind_sum (symbol_names ''Parameters must be symbols'' ps)
                                       (\<lambda>params.
                                     bind_sum (parse b env s) (\<lambda>body.
                                       Inr (Define funcName (Lambda params body))))
                                 | _ \<Rightarrow> Inl (RuntimeError ''Function name must be a symbol'')))
                       | _ \<Rightarrow> Inl (RuntimeError ''Invalid define syntax''))
                  | _ \<Rightarrow> Inl (RuntimeError ''Wrong number of arguments for define''))
             | E_LET \<Rightarrow>
                 (case rest of
                    [bs, b] \<Rightarrow>
                      (case bs of
                         List bindingsList \<Rightarrow>
                           bind_sum (parse_bindings bindingsList env s) (\<lambda>bindings.
                           bind_sum (parse b env s) (\<lambda>body. Inr (Let_e bindings body)))
                       | _ \<Rightarrow> Inl (RuntimeError ''Let bindings must be a list''))
                  | _ \<Rightarrow> Inl (RuntimeError ''Wrong number of arguments for let''))
             | E_LETREC \<Rightarrow>
                 (case rest of
                    [bs, b] \<Rightarrow>
                      (case bs of
                         List bindingsList \<Rightarrow>
                           bind_sum (parse_bindings bindingsList env s) (\<lambda>bindings.
                           bind_sum (parse b env s) (\<lambda>body. Inr (Letrec bindings body)))
                       | _ \<Rightarrow> Inl (RuntimeError ''Letrec bindings must be a list''))
                  | _ \<Rightarrow> Inl (RuntimeError ''Wrong number of arguments for letrec''))
             | E_SET \<Rightarrow>
                 (case rest of
                    [target, b] \<Rightarrow>
                      (case target of
                         SymbolSyntax var \<Rightarrow>
                           bind_sum (parse b env s) (\<lambda>ex. Inr (Set_e var ex))
                       | _ \<Rightarrow> Inl (RuntimeError ''Set! variable must be a symbol''))
                  | _ \<Rightarrow> Inl (RuntimeError ''Wrong number of arguments for set!''))
             | _ \<Rightarrow> Inl (RuntimeError (''Unknown reserved word: '' @ op)))
          else bind_sum (parse_rands rest env s) (\<lambda>rand. Inr (Apply (Var op) rand))
      | _ \<Rightarrow>
          bind_sum (parse_rands rest env s) (\<lambda>rand.
          bind_sum (parse head env s) (\<lambda>rator. Inr (Apply rator rand))))"
| "parse_rands [] env s = Inr []"
| "parse_rands (stx # stxs) env s =
     bind_sum (parse stx env s) (\<lambda>r.
     bind_sum (parse_rands stxs env s) (\<lambda>rs. Inr (r # rs)))"
| "parse_clauses [] env s = Inr []"
| "parse_clauses (stx # stxs) env s =
     (case stx of
        List clauseList \<Rightarrow>
          bind_sum (parse_rands clauseList env s) (\<lambda>clauseExprs.
          bind_sum (parse_clauses stxs env s) (\<lambda>clauses. Inr (clauseExprs # clauses)))
      | _ \<Rightarrow> Inl (RuntimeError ''Cond clause must be a list''))"
| "parse_bindings [] env s = Inr []"
| "parse_bindings (stx # stxs) env s =
     (case stx of
        List binding \<Rightarrow>
          (case binding of
             [v, ex] \<Rightarrow>
               (case v of
                  SymbolSyntax var \<Rightarrow>
                    bind_sum (parse ex env s) (\<lambda>e.
                    bind_sum (parse_bindings stxs env s) (\<lambda>bindings. Inr ((var, e) # bindings)))
                | _ \<Rightarrow> Inl (RuntimeError ''Binding variable must be a symbol''))
           | _ \<Rightarrow> Inl (RuntimeError ''Each binding must be a list of 2 elements''))
      | _ \<Rightarrow> Inl (RuntimeError ''Each binding must be a list of 2 elements''))"
  by pat_completeness auto
termination
  by (relation "measure (\<lambda>x. case x of
        Inl (Inl (stx, env, s)) \<Rightarrow> size stx
      | Inl (Inr (stxs, env, s)) \<Rightarrow> size_list size stxs
      | Inr (Inl (stxs, env, s)) \<Rightarrow> size_list size stxs
      | Inr (Inr (stxs, env, s)) \<Rightarrow> size_list size stxs)")
     simp_all

section \<open>The driver\<close>

text \<open>
  \<open>REPL\<close> parses and evaluates the forms of the input one after the other, all in the
  one global environment it starts with, the empty one. After each form it prints the
  value, or \<open>RuntimeError\<close> for a \<open>RuntimeError\<close> raised by either step, and a newline;
  a Terminate value ends the loop. A \<open>Fault\<close> is not caught: the run is \<open>Killed\<close> in
  the state reached, with nothing more printed. The reader is outside the model: the input
  is the list of the forms read. The prompt of the interactive build is left out.
\<close>

datatype run = Ended state | Killed state

definition puts :: "out_event list \<Rightarrow> state \<Rightarrow> state" where
  "puts evs s = s\<lparr>out := out s @ evs @ [Raw [CHR 0x0A]]\<rparr>"

fun REPL_loop :: "nat \<Rightarrow> Syntax list \<Rightarrow> Assoc \<Rightarrow> state \<Rightarrow> run option" where
  "REPL_loop n [] global_env s = Some (Ended s)"
| "REPL_loop n (stx # input) global_env s =
     (case parse stx global_env s of
        Inl err \<Rightarrow>
          (case err of
             RuntimeError msg \<Rightarrow> REPL_loop n input global_env (puts [Raw ''RuntimeError''] s)
           | Fault \<Rightarrow> Some (Killed s))
      | Inr expr \<Rightarrow>
          (case eval n expr global_env s of
             None \<Rightarrow> None
           | Some (Inl err, s1) \<Rightarrow>
               (case err of
                  RuntimeError msg \<Rightarrow>
                    REPL_loop n input global_env (puts [Raw ''RuntimeError''] s1)
                | Fault \<Rightarrow> Some (Killed s1))
           | Some (Inr val, s1) \<Rightarrow>
               if v_type (deref s1 val) = V_TERMINATE then Some (Ended s1)
               else REPL_loop n input global_env (puts [Shown val] s1)))"

definition REPL :: "nat \<Rightarrow> Syntax list \<Rightarrow> run option" where
  "REPL n input = REPL_loop n input empty_assoc \<lparr>objs = [], cells = [], out = []\<rparr>"

section \<open>Notions used to state the claims\<close>

text \<open>
  \<open>mirrors s v X\<close>: in the heap of \<open>s\<close>, the value \<open>v\<close> has the shape of the
  syntax \<open>X\<close>: a literal is the object of its kind with the same content, a symbol is a
  Symbol object, and a list is a chain of Pairs, one for each element and holding a value
  that mirrors it, ended by Null.
\<close>

fun mirrors :: "state \<Rightarrow> Value \<Rightarrow> Syntax \<Rightarrow> bool"
  and mirrors_list :: "state \<Rightarrow> Value \<Rightarrow> Syntax list \<Rightarrow> bool" where
  "mirrors s v (Number n) = (v < length (objs s) \<and> deref s v = Integer n)"
| "mirrors s v (RationalSyntax n d) = (v < length (objs s) \<and> deref s v = Rational n d)"
| "mirrors s v (SymbolSyntax str) = (v < length (objs s) \<and> deref s v = Symbol str)"
| "mirrors s v (StringSyntax str) = (v < length (objs s) \<and> deref s v = String str)"
| "mirrors s v TrueSyntax = (v < length (objs s) \<and> deref s v = Boolean True)"
| "mirrors s v FalseSyntax = (v < length (objs s) \<and> deref s v = Boolean False)"
| "mirrors s v (List stxs) = mirrors_list s v stxs"
| "mirrors_list s v [] = (v < length (objs s) \<and> deref s v = Null)"
| "mirrors_list s v (stx # stxs) =
     (v < length (objs s) \<and>
      (case deref s v of
         Pair_v a d \<Rightarrow> mirrors s a stx \<and> mirrors_list s d stxs
       | _ \<Rightarrow> False))"

text \<open>
  \<open>eval_all P ev es e s = Some s1\<close>: evaluated from left to right, starting in state
  \<open>s\<close>, every expression of \<open>es\<close> returns a value, which satisfies \<open>P\<close> when it is
  returned, and \<open>s1\<close> is the state after the last one.
\<close>

fun eval_all ::
  "(ValueBase \<Rightarrow> bool) \<Rightarrow> (Expr \<Rightarrow> Assoc \<Rightarrow> state \<Rightarrow> Value res) \<Rightarrow> Expr list \<Rightarrow> Assoc \<Rightarrow> state
   \<Rightarrow> state option"
where
  "eval_all P ev [] e s = Some s"
| "eval_all P ev (x # xs) e s =
     (case ev x e s of
        Some (Inr v, s1) \<Rightarrow> if P (deref s1 v) then eval_all P ev xs e s1 else None
      | _ \<Rightarrow> None)"

text \<open>
  \<open>let_bindings ev bind e s\<close>: the binding expressions of \<open>bind\<close> are evaluated from
  left to right, every one of them in the environment \<open>e\<close>; the value of each is put
  into a new cell as soon as it is returned. The result is the list of these cells, in
  the order of the bindings.
\<close>

fun let_bindings ::
  "(Expr \<Rightarrow> Assoc \<Rightarrow> state \<Rightarrow> Value res) \<Rightarrow> (string \<times> Expr) list \<Rightarrow> Assoc \<Rightarrow> state \<Rightarrow> nat list res"
where
  "let_bindings ev [] e s = ret ([], s)"
| "let_bindings ev (b # bind) e s =
     bind_res (ev (snd b) e s) (\<lambda>v s1.
     bind_res (let_bindings ev bind e (s1\<lparr>cells := cells s1 @ [v]\<rparr>)) (\<lambda>cs s2.
       ret (length (cells s1) # cs, s2)))"

text \<open>The two forms \<open>(define (fact n) (if (= n 0) 1 (* n (fact (- n 1)))))\<close> and \<open>(fact 5)\<close>.\<close>

definition fact_define :: Syntax where
  "fact_define =
     List [SymbolSyntax ''define'', List [SymbolSyntax ''fact'', SymbolSyntax ''n''],
       List [SymbolSyntax ''if'', List [SymbolSyntax ''='', SymbolSyntax ''n'', Number 0],
         Number 1,
         List [SymbolSyntax ''*'', SymbolSyntax ''n'',
           List [SymbolSyntax ''fact'',
             List [SymbolSyntax ''-'', SymbolSyntax ''n'', Number 1]]]]]"

definition fact_call :: Syntax where
  "fact_call = List [SymbolSyntax ''fact'', Number 5]"

text \<open>The form \<open>(/ (- (- 0 2147483647) 1) (- 0 1))\<close>, which divides \<open>INT_MIN\<close> by \<open>-1\<close>.\<close>

definition overflow_division :: Syntax where
  "overflow_division =
     List [SymbolSyntax ''/'',
       List [SymbolSyntax ''-'', List [SymbolSyntax ''-'', Number 0, Number 2147483647],
         Number 1],
       List [SymbolSyntax ''-'', Number 0, Number 1]]"


section \<open>Properties of the arithmetic helpers\<close>

subsection \<open>Truncating division and wrap-around\<close>

lemma compareNumericValues_sign:
  "is_numeric a \<Longrightarrow> is_numeric b \<Longrightarrow>
   \<exists>c. compareNumericValues a b = Inr c \<and> (c = - 1 \<or> c = 0 \<or> c = 1)"
  by (cases a; cases b) (simp_all add: is_numeric_def Let_def)

lemma smod_zero_iff: "b \<noteq> 0 \<Longrightarrow> (a smod b = 0) = ((a::int) mod b = 0)"
  by (auto simp: signed_modulo_int_def signed_divide_int_def sgn_if  abs_if   split: if_splits)

lemma sdiv_exact: "(a::int) mod b = 0 \<Longrightarrow> a sdiv b = a div b"
  using signed_divide_int_eq_divide_int [of a b] by (simp add: mod_eq_0_iff_dvd)

lemma wrap_int_id: "is_int x \<Longrightarrow> wrap_int x = x"
  by (simp add: wrap_int_def is_int_def INT_MIN_def INT_MAX_def)

lemma wrap_ll_id: "- 9223372036854775808 \<le> x \<Longrightarrow> x < 9223372036854775808 \<Longrightarrow> wrap_ll x = x"
  by (simp add: wrap_ll_def)

lemma abs_quotient_le:
  fixes a b :: int
  assumes "b \<noteq> 0" "a mod b = 0"
  shows "\<bar>a div b\<bar> * \<bar>b\<bar> = \<bar>a\<bar>" "\<bar>a div b\<bar> \<le> \<bar>a\<bar>"
proof -
  from assms(2) have ab: "a = (a div b) * b" by auto
  then show eq: "\<bar>a div b\<bar> * \<bar>b\<bar> = \<bar>a\<bar>" by (metis abs_mult)
  have "1 \<le> \<bar>b\<bar>" using assms(1) by simp
  then have "\<bar>a div b\<bar> * 1 \<le> \<bar>a div b\<bar> * \<bar>b\<bar>" by (intro mult_left_mono) simp_all
  with eq show "\<bar>a div b\<bar> \<le> \<bar>a\<bar>" by simp
qed

lemma exact_quotient_is_int:
  assumes "is_int a" "is_int b" "b \<noteq> 0" "\<not> (a = INT_MIN \<and> b = - 1)" "a mod b = 0"
  shows "is_int (a div b)"
proof (cases "b = - 1 \<or> b = 1")
  case True
  then have "a div b = - a \<or> a div b = a" by auto
  with assms True show ?thesis by (auto simp: is_int_def INT_MIN_def INT_MAX_def)
next
  case False
  then have b2: "2 \<le> \<bar>b\<bar>" using \<open>b \<noteq> 0\<close> by linarith
  have "\<bar>a div b\<bar> * 2 \<le> \<bar>a div b\<bar> * \<bar>b\<bar>" using b2 by (intro mult_left_mono) simp_all
  with abs_quotient_le(1) [OF assms(3,5)] have "\<bar>a div b\<bar> * 2 \<le> \<bar>a\<bar>" by simp
  with assms(1) show ?thesis by (auto simp: is_int_def INT_MIN_def INT_MAX_def)
qed


lemma smod2_pos: "0 < (e::int) \<Longrightarrow> e smod 2 = e mod 2"
  by (simp add: signed_modulo_int_eq_modulo_int sgn_if)

lemma sdiv2_pos: "0 < (e::int) \<Longrightarrow> e sdiv 2 = e div 2"
  by (simp add: signed_divide_int_eq_divide_int sgn_if)

lemma abs_mult_bound:
  fixes x y :: int
  assumes "\<bar>x\<bar> \<le> m" "\<bar>y\<bar> \<le> n"
  shows "\<bar>x * y\<bar> \<le> m * n"
proof -
  have "\<bar>x\<bar> * \<bar>y\<bar> \<le> m * n" using assms by (intro mult_mono) simp_all
  then show ?thesis by (simp add: abs_mult)
qed

lemma wrap_ll_mult:
  assumes "is_int x" "is_int y"
  shows "wrap_ll (x * y) = x * y"
proof -
  have "\<bar>x\<bar> \<le> 2147483648" "\<bar>y\<bar> \<le> 2147483648"
    using assms by (auto simp: is_int_def INT_MIN_def INT_MAX_def)
  from abs_mult_bound [OF this] have "\<bar>x * y\<bar> \<le> 2147483648 * 2147483648" .
  then show ?thesis by (intro wrap_ll_id) auto
qed

lemma square_not_2_31: "(b::int) * b \<noteq> 2147483648"
proof (cases "\<bar>b\<bar> \<le> 46340")
  case True
  then have "\<bar>b\<bar> * \<bar>b\<bar> \<le> 46340 * 46340" by (intro mult_mono) simp_all
  then have "b * b \<le> 2147395600" by (simp only: abs_mult_self_eq)
  then show ?thesis by linarith
next
  case False
  then have "46341 \<le> \<bar>b\<bar>" by simp
  then have "46341 * 46341 \<le> \<bar>b\<bar> * \<bar>b\<bar>" by (intro mult_mono) simp_all
  then have "2147488281 \<le> b * b" by (simp only: abs_mult_self_eq)
  then show ?thesis by linarith
qed

lemma pow_split:
  assumes "0 < (e::int)"
  shows "(b::int) ^ nat e = (if e mod 2 = 1 then b else 1) * (b * b) ^ nat (e div 2)"
proof -
  have d: "0 \<le> e div 2" using assms by simp
  have "nat e = nat (2 * (e div 2) + e mod 2)" by simp
  also have "\<dots> = nat (2 * (e div 2)) + nat (e mod 2)"
    using d by (intro nat_add_distrib) simp_all
  also have "nat (2 * (e div 2)) = 2 * nat (e div 2)"
    by (simp add: nat_mult_distrib)
  finally have e: "nat e = 2 * nat (e div 2) + nat (e mod 2)" .
  have sq: "b ^ (2 * nat (e div 2)) = (b * b) ^ nat (e div 2)"
    by (simp add: power_mult power2_eq_square)
  have "b ^ nat e = b ^ (2 * nat (e div 2) + nat (e mod 2))"
    using e by simp
  also have "\<dots> = (b * b) ^ nat (e div 2) * b ^ nat (e mod 2)"
    by (simp only: power_add sq)
  finally have p: "b ^ nat e = (b * b) ^ nat (e div 2) * b ^ nat (e mod 2)" .
  show ?thesis
  proof (cases "e mod 2 = 1")
    case True
    with p show ?thesis by simp
  next
    case False
    then have "e mod 2 = 0" by presburger
    with p show ?thesis by simp
  qed
qed

lemma overflow_propagates:
  fixes r c :: int
  assumes "\<not> is_int r" "1 \<le> c"
  shows "\<not> is_int (r * c)"
proof (cases "r > INT_MAX")
  case True
  then have "0 \<le> r" by (simp add: INT_MAX_def)
  then have "r * 1 \<le> r * c" using assms(2) by (intro mult_left_mono) simp_all
  with True show ?thesis by (simp add: is_int_def)
next
  case False
  with assms(1) have lt: "r < INT_MIN" by (simp add: is_int_def)
  then have "r \<le> 0" by (simp add: INT_MIN_def)
  then have "r * c \<le> r * 1" using assms(2) by (intro mult_left_mono_neg) simp_all
  with lt show ?thesis by (simp add: is_int_def)
qed

lemma power_ge_self:
  fixes c :: int
  assumes "1 \<le> c" "0 < k"
  shows "c \<le> c ^ k"
  using assms by (metis self_le_power)

lemma big_square_overflows:
  fixes r b :: int
  assumes "r \<noteq> 0" "\<not> is_int (b * b)" "0 < k"
  shows "\<not> is_int (r * (b * b) ^ k)"
proof -
  have "0 \<le> b * b" by simp
  with assms(2) have "2147483648 \<le> b * b" by (simp add: is_int_def INT_MIN_def INT_MAX_def)
  with square_not_2_31 [of b] have big: "2147483649 \<le> b * b" by linarith
  then have "1 \<le> b * b" by linarith
  from power_ge_self [OF this assms(3)] big have c: "2147483649 \<le> (b * b) ^ k" by linarith
  have "1 \<le> \<bar>r\<bar>" using assms(1) by simp
  then have "1 * 2147483649 \<le> \<bar>r\<bar> * (b * b) ^ k" using c by (intro mult_mono) simp_all
  also have "\<dots> = \<bar>r * (b * b) ^ k\<bar>" by (simp add: abs_mult)
  finally have "2147483649 \<le> \<bar>r * (b * b) ^ k\<bar>" by simp
  then show ?thesis unfolding is_int_def INT_MIN_def INT_MAX_def by linarith
qed

subsection \<open>The loop of \<open>expt\<close>\<close>

text \<open>
  The loop invariant: \<open>result * b ^ exp\<close> is the power being computed; \<open>result\<close> is
  a machine integer, and so is \<open>b\<close> as long as an iteration remains. Under it no
  \<open>long long\<close> product wraps, and an overflow is reported exactly when the power is
  not a machine integer.
\<close>

lemma expt_loop_correct:
  assumes "0 \<le> exp" "is_int result" "0 < exp \<longrightarrow> is_int b" "result \<noteq> 0 \<or> b = 0"
  shows "expt_loop result b exp =
    (if is_int (result * b ^ nat exp) then Inr (result * b ^ nat exp)
     else Inl (RuntimeError ''Integer overflow in expt''))"
  using assms
proof (induction result b exp rule: expt_loop.induct)
  case (1 result b exp)
  show ?case
  proof (cases "0 < exp")
    case False
    with "1.prems" have "exp = 0" by simp
    with "1.prems" show ?thesis by (subst expt_loop.simps) simp
  next
    case pos: True
    with "1.prems" have bi: "is_int b" by simp
    define k where "k = exp div 2"
    define r1 where "r1 = (if exp mod 2 = 1 then result * b else result)"
    define b1 where "b1 = b * b"
    have pw: "result * b ^ nat exp = r1 * b1 ^ nat k"
      by (simp add: pow_split [OF pos] r1_def b1_def k_def)
    have wr: "(if exp smod 2 = 1 then wrap_ll (result * b) else result) = r1"
      by (simp add: smod2_pos [OF pos] r1_def wrap_ll_mult [OF "1.prems"(2) bi])
    have wb: "wrap_ll (b * b) = b1"
      by (simp add: b1_def wrap_ll_mult [OF bi bi])
    have b1_nonneg: "0 \<le> b1" by (simp add: b1_def)
    have c1: "(exp smod 2 = 1 \<and> (INT_MAX < r1 \<or> r1 < INT_MIN)) = (exp mod 2 = 1 \<and> \<not> is_int r1)"
      unfolding is_int_def smod2_pos [OF pos] by linarith
    have c2: "((INT_MAX < b1 \<or> b1 < INT_MIN) \<and> 1 < exp) = (\<not> is_int b1 \<and> 1 < exp)"
      unfolding is_int_def by linarith
    have unfold: "expt_loop result b exp =
      (if exp mod 2 = 1 \<and> \<not> is_int r1 then Inl (RuntimeError ''Integer overflow in expt'')
       else if \<not> is_int b1 \<and> exp > 1 then Inl (RuntimeError ''Integer overflow in expt'')
       else expt_loop r1 b1 k)"
      by (subst expt_loop.simps) (simp only: wr wb Let_def c1 c2 pos if_True sdiv2_pos [OF pos] k_def)
    have r1_nz: "r1 \<noteq> 0 \<or> b1 = 0"
      using "1.prems"(4) by (auto simp: r1_def b1_def)
    show ?thesis
    proof (cases "exp mod 2 = 1 \<and> \<not> is_int r1")
      case True
      then have "b \<noteq> 0" using "1.prems"(2) by (auto simp: r1_def is_int_def INT_MIN_def INT_MAX_def)
      then have "0 < b1" unfolding b1_def by (simp add: zero_less_mult_iff) linarith
      then have "1 \<le> b1" by simp
      then have "1 \<le> b1 ^ nat k" by simp
      from overflow_propagates [OF _ this, of r1] True have "\<not> is_int (r1 * b1 ^ nat k)" by simp
      with True show ?thesis by (simp add: unfold pw)
    next
      case noovf1: False
      then have r1i: "is_int r1" using "1.prems"(2) by (auto simp: r1_def)
      show ?thesis
      proof (cases "\<not> is_int b1 \<and> exp > 1")
        case True
        then have kpos: "0 < nat k" unfolding k_def by linarith
        have "r1 \<noteq> 0" using r1_nz True by (auto simp: is_int_def INT_MIN_def INT_MAX_def)
        from big_square_overflows [OF this _ kpos, of b] True
        have "\<not> is_int (r1 * b1 ^ nat k)" by (simp add: b1_def)
        with True noovf1 show ?thesis by (simp add: unfold pw)
      next
        case noovf2: False
        have k0: "0 \<le> k" using pos by (simp add: k_def)
        have "0 < k \<Longrightarrow> 1 < exp" unfolding k_def by linarith
        then have kb: "0 < k \<longrightarrow> is_int b1" using noovf2 by blast
        have ksd: "exp sdiv 2 = k" by (simp add: sdiv2_pos [OF pos] k_def)
        have "expt_loop r1 b1 (exp sdiv 2) =
          (if is_int (r1 * b1 ^ nat (exp sdiv 2)) then Inr (r1 * b1 ^ nat (exp sdiv 2))
           else Inl (RuntimeError ''Integer overflow in expt''))"
        proof (rule "1.IH")
          show "0 < exp" by (rule pos)
          show "r1 = (if exp smod 2 = 1 then wrap_ll (result * b) else result)" by (rule wr [symmetric])
          show "b1 = wrap_ll (b * b)" by (rule wb [symmetric])
          show "\<not> (exp smod 2 = 1 \<and> (INT_MAX < r1 \<or> r1 < INT_MIN))"
            unfolding c1 by (rule noovf1)
          show "\<not> ((INT_MAX < b1 \<or> b1 < INT_MIN) \<and> 1 < exp)"
            unfolding c2 by (rule noovf2)
          show "is_int r1" by (rule r1i)
          show "0 < exp sdiv 2 \<longrightarrow> is_int b1" unfolding ksd by (rule kb)
          show "0 \<le> exp sdiv 2" unfolding ksd by (rule k0)
          show "r1 \<noteq> 0 \<or> b1 = 0" by (rule r1_nz)
        qed
        then have "expt_loop r1 b1 k =
          (if is_int (r1 * b1 ^ nat k) then Inr (r1 * b1 ^ nat k)
           else Inl (RuntimeError ''Integer overflow in expt''))" by (simp only: ksd)
        moreover have "expt_loop result b exp = expt_loop r1 b1 k"
          by (simp only: unfold noovf1 noovf2 if_False)
        ultimately show ?thesis by (simp only: pw)
      qed
    qed
  qed
qed

section \<open>Properties of the evaluator and the parser\<close>

lemmas store_defs = ret_def throw_def bind_res_def new_value_def alloc_def deref_def
  IntegerV_def RationalV_def StringV_def SymbolV_def BooleanV_def NullV_def PairV_def
  ProcedureV_def VoidV_def TerminateV_def extend_def find_assoc_def modify_def empty_assoc_def

lemma parse_fact_define: "parse fact_define [] s = Inr (Define ''fact''
       (Lambda [''n'']
         (If_e (Binary Equal (Var ''n'') (Fixnum 0)) (Fixnum 1)
           (Binary Mult (Var ''n'')
             (Apply (Var ''fact'')
               [Binary Minus (Var ''n'') (Fixnum 1)])))))"
  by (simp add: fact_define_def store_defs primitives_def reserved_words_def bind_sum_def
       binary_or_variadic_def)

lemma parse_overflow_division:
  "parse overflow_division [] s =
     Inr (Binary Div
           (Binary Minus (Binary Minus (Fixnum 0) (Fixnum 2147483647)) (Fixnum 1))
           (Binary Minus (Fixnum 0) (Fixnum 1)))"
  by (simp add: overflow_division_def store_defs primitives_def reserved_words_def bind_sum_def
      binary_or_variadic_def)

lemma parse_fact_call: "parse fact_call [] s = Inr (Apply (Var ''fact'') [Fixnum 5])"
  by (simp add: fact_call_def store_defs primitives_def reserved_words_def bind_sum_def)


subsection \<open>Quoted syntax\<close>

lemma deref_append: "v < length (objs s) \<Longrightarrow> objs s' = objs s @ ys \<Longrightarrow> deref s' v = deref s v"
  by (simp add: deref_def nth_append)

lemma mirrors_mono:
  "mirrors s v X \<Longrightarrow> objs s' = objs s @ ys \<Longrightarrow> mirrors s' v X"
  "mirrors_list s v Xs \<Longrightarrow> objs s' = objs s @ ys \<Longrightarrow> mirrors_list s' v Xs"
proof (induction s v X and s v Xs arbitrary: ys and ys rule: mirrors_mirrors_list.induct)
  case (9 s v stx stxs)
  from "9.prems" obtain a d where
    v: "v < length (objs s)" and p: "deref s v = Pair_v a d"
    and ma: "mirrors s a stx" and md: "mirrors_list s d stxs"
    by (auto split: ValueBase.splits)
  from deref_append [OF v "9.prems"(2)] p have p': "deref s' v = Pair_v a d" by simp
  from "9.IH"(1) [OF p ma "9.prems"(2)] "9.IH"(2) [OF p md "9.prems"(2)] v p' "9.prems"(2)
  show ?case by simp
qed (auto simp: deref_def nth_append)

lemma alloc_mirrors:
  "alloc obj s = (v, s') \<Longrightarrow>
   objs s' = objs s @ [obj] \<and> cells s' = cells s \<and> out s' = out s
   \<and> v < length (objs s') \<and> deref s' v = obj"
  by (auto simp: alloc_def deref_def)

lemma syntaxToValue_mirrors:
  "syntaxToValue X s = (v, s') \<Longrightarrow>
     (\<exists>ys. objs s' = objs s @ ys) \<and> cells s' = cells s \<and> out s' = out s \<and> mirrors s' v X"
  "syntaxToValue_loop Xs s = (v, s') \<Longrightarrow>
     (\<exists>ys. objs s' = objs s @ ys) \<and> cells s' = cells s \<and> out s' = out s
     \<and> mirrors_list s' v Xs"
proof (induction X s and Xs s arbitrary: v s' and v s' rule: syntaxToValue_syntaxToValue_loop.induct)
  case (9 stx stxs s)
  obtain result s1 where l: "syntaxToValue_loop stxs s = (result, s1)" by (cases "syntaxToValue_loop stxs s")
  obtain a s2 where h: "syntaxToValue stx s1 = (a, s2)" by (cases "syntaxToValue stx s1")
  from "9.prems" l h have al: "alloc (Pair_v a result) s2 = (v, s')" by (simp add: PairV_def)
  from "9.IH"(1) [OF l] obtain ys1 where
    1: "objs s1 = objs s @ ys1" "cells s1 = cells s" "out s1 = out s" "mirrors_list s1 result stxs"
    by blast
  from "9.IH"(2) [OF l [symmetric] refl h] obtain ys2 where
    2: "objs s2 = objs s1 @ ys2" "cells s2 = cells s1" "out s2 = out s1" "mirrors s2 a stx"
    by blast
  from al have
    3: "objs s' = objs s2 @ [Pair_v a result]" "cells s' = cells s2" "out s' = out s2"
       "v < length (objs s')" "deref s' v = Pair_v a result"
    by (auto simp: alloc_def deref_def)
  have "mirrors_list s2 result stxs" by (rule mirrors_mono(2) [OF 1(4) 2(1)])
  then have r: "mirrors_list s' result stxs" by (rule mirrors_mono(2) [OF _ 3(1)])
  have a: "mirrors s' a stx" by (rule mirrors_mono(1) [OF 2(4) 3(1)])
  have "objs s' = objs s @ (ys1 @ ys2 @ [Pair_v a result])" using 1(1) 2(1) 3(1) by simp
  then have "\<exists>ys. objs s' = objs s @ ys" by blast
  moreover have "cells s' = cells s" "out s' = out s" using 1 2 3 by simp_all
  moreover have "mirrors_list s' v (stx # stxs)" using 3(4,5) r a by simp
  ultimately show ?case by simp
qed (auto simp: IntegerV_def RationalV_def StringV_def SymbolV_def BooleanV_def NullV_def
       alloc_def deref_def)


subsection \<open>The loops of \<open>and\<close>, \<open>or\<close> and \<open>let\<close>\<close>

lemma is_false_iff: "is_false v = (v = Boolean False)"
  by (cases v) (auto simp: is_false_def)

lemma alloc_deref: "deref (snd (alloc obj s)) (fst (alloc obj s)) = obj"
  by (simp add: alloc_def deref_def)

lemma and_loop_prefix:
  "eval_all (\<lambda>v. \<not> is_false v) ev es e s = Some s1 \<Longrightarrow>
   and_loop ev (es @ x # rest) e r s = and_loop ev (x # rest) e r' s1"
proof (induction es arbitrary: s r)
  case Nil
  then show ?case by simp
next
  case (Cons a es)
  from Cons.prems obtain v s' where
    a: "ev a e s = Some (Inr v, s')" and t: "\<not> is_false (deref s' v)"
    and rest: "eval_all (\<lambda>v. \<not> is_false v) ev es e s' = Some s1"
    by (auto split: option.splits sum.splits if_splits)
  from Cons.IH [OF rest] a t show ?case by (simp add: bind_res_def)
qed

lemma or_loop_prefix:
  "eval_all is_false ev es e s = Some s1 \<Longrightarrow>
   or_loop ev (es @ rest) e s = or_loop ev rest e s1"
proof (induction es arbitrary: s)
  case Nil
  then show ?case by simp
next
  case (Cons a es)
  from Cons.prems obtain v s' where
    a: "ev a e s = Some (Inr v, s')" and t: "is_false (deref s' v)"
    and rest: "eval_all is_false ev es e s' = Some s1"
    by (auto split: option.splits sum.splits if_splits)
  from Cons.IH [OF rest] a t show ?case by (simp add: bind_res_def)
qed

lemma eval_AndVar:
  "eval (Suc n) (AndVar rands) e s =
     bind_res (and_loop (eval n) rands e (fst (BooleanV True s)) (snd (BooleanV True s)))
       (\<lambda>result1 s1. if rands = [] then ret (BooleanV True s1) else ret (result1, s1))"
  by (simp add: split_def Let_def)

lemma let_loop_bindings:
  "let_loop ev bind e newEnv s =
     bind_res (let_bindings ev bind e s) (\<lambda>cs s1. ret (rev (zip (map fst bind) cs) @ newEnv, s1))"
proof (induction bind arbitrary: newEnv s)
  case Nil
  show ?case by (simp add: bind_res_def ret_def)
next
  case (Cons b bind)
  show ?case
  proof (cases "ev (snd b) e s")
    case None
    then show ?thesis by (simp add: bind_res_def)
  next
    case (Some p)
    obtain r s1 where p: "p = (r, s1)" by (cases p)
    show ?thesis
    proof (cases r)
      case (Inl err)
      with Some p show ?thesis by (simp add: bind_res_def)
    next
      case (Inr v)
      have 1: "let_loop ev (b # bind) e newEnv s =
          let_loop ev bind e ((fst b, length (cells s1)) # newEnv) (s1\<lparr>cells := cells s1 @ [v]\<rparr>)"
        using Some p Inr by (simp add: bind_res_def extend_def)
      have 2: "let_bindings ev (b # bind) e s =
          bind_res (let_bindings ev bind e (s1\<lparr>cells := cells s1 @ [v]\<rparr>))
            (\<lambda>cs s2. ret (length (cells s1) # cs, s2))"
        using Some p Inr by (simp add: bind_res_def)
      show ?thesis
        unfolding 1 2 Cons.IH
        by (auto simp: bind_res_def ret_def split: option.splits sum.splits)
    qed
  qed
qed

lemma let_bindings_length:
  "let_bindings ev bind e s = Some (Inr cs, s') \<Longrightarrow> length cs = length bind"
proof (induction bind arbitrary: s cs)
  case Nil
  then show ?case by (simp add: ret_def)
next
  case (Cons b bind)
  from Cons.prems obtain v s1 cs' where
    "let_bindings ev bind e (s1\<lparr>cells := cells s1 @ [v]\<rparr>) = Some (Inr cs', s')"
    and "cs = length (cells s1) # cs'"
    by (auto simp: bind_res_def ret_def split: option.splits sum.splits)
  with Cons.IH show ?case by auto
qed

section \<open>Claims\<close>

text \<open>
  C1, on the code. \<open>Define::eval\<close> drops the chain that \<open>extend\<close> returns, so the
  global environment of the driver stays empty: after the definition of \<open>fact\<close> has
  been evaluated (and its Void value printed), \<open>(fact 5)\<close> parses to an application of
  the variable \<open>fact\<close>, whose evaluation raises "Undefined variable: fact"; the driver
  prints \<open>RuntimeError\<close>, not \<open>120\<close>.
\<close>

theorem REPL_define_then_call:
  "REPL (Suc (Suc n)) [fact_define, fact_call] = Some (Ended
     \<lparr>objs =
        [Procedure [''n'']
          (If_e (Binary Equal (Var ''n'') (Fixnum 0)) (Fixnum 1)
            (Binary Mult (Var ''n'')
              (Apply (Var ''fact'') [Binary Minus (Var ''n'') (Fixnum 1)])))
          [],
         Void],
      cells = [0],
      out = [Shown 1, Raw [CHR 0x0A], Raw ''RuntimeError'', Raw [CHR 0x0A]]\<rparr>)"
  by (simp add: REPL_def parse_fact_define parse_fact_call store_defs puts_def primitives_def)

text \<open>
  C2 (as amended). For a list whose head is a symbol that is not bound in the
  environment, not in the primitive table and not in the reserved-word table, \<open>parse\<close>
  raises no error of its own: it parses the operands and, unless one of them fails,
  produces the application of the variable of that name to them.
\<close>

theorem parse_unknown_head_applies:
  assumes "find_assoc op env s = None" "map_of primitives op = None"
    "map_of reserved_words op = None"
  shows "parse (List (SymbolSyntax op # rest)) env s =
           bind_sum (parse_rands rest env s) (\<lambda>rand. Inr (Apply (Var op) rand))"
  using assms by simp

theorem parse_unknown_head_applies_witness:
  "find_assoc ''foo'' empty_assoc \<lparr>objs = [], cells = [], out = []\<rparr> = None
   \<and> map_of primitives ''foo'' = None \<and> map_of reserved_words ''foo'' = None
   \<and> parse (List [SymbolSyntax ''foo'', Number 1]) empty_assoc
        \<lparr>objs = [], cells = [], out = []\<rparr>
      = Inr (Apply (Var ''foo'') [Fixnum 1])"
  using parse_unknown_head_applies
    [of "''foo''" empty_assoc "\<lparr>objs = [], cells = [], out = []\<rparr>" "[Number 1]"]
  by (simp add: find_assoc_def empty_assoc_def primitives_def reserved_words_def bind_sum_def)

text \<open>
  C2 as stated fails on \<open>(foo)\<close> in the empty environment: \<open>foo\<close> is not bound, not a
  primitive and not a reserved word, and \<open>parse\<close> returns an expression.
\<close>

theorem parse_unknown_head_counterexample:
  "find_assoc ''foo'' empty_assoc \<lparr>objs = [], cells = [], out = []\<rparr> = None
   \<and> map_of primitives ''foo'' = None \<and> map_of reserved_words ''foo'' = None
   \<and> parse (List [SymbolSyntax ''foo'']) empty_assoc \<lparr>objs = [], cells = [], out = []\<rparr>
      = Inr (Apply (Var ''foo'') [])"
  by (simp add: find_assoc_def empty_assoc_def primitives_def reserved_words_def bind_sum_def)

text \<open>
  C3, on the code. For \<open>a = INT_MIN\<close> and \<open>b = - 1\<close>, both machine integers with
  \<open>b \<noteq> 0\<close> and \<open>a mod b = 0\<close>, \<open>divideValues\<close> passes its test for a zero divisor
  and computes \<open>n1 % n2\<close>, which overflows: no Integer and no \<open>RuntimeError\<close> comes
  out of it, the process is killed. The driver, given \<open>(/ (- (- 0 2147483647) 1) (- 0 1))\<close>,
  prints nothing and reads none of the forms after it.
\<close>

theorem divideValues_INT_MIN_fault:
  "is_int (- 2147483648) \<and> is_int (- 1) \<and> (- 1 :: int) \<noteq> 0
   \<and> (- 2147483648 :: int) mod (- 1) = 0
   \<and> divideValues (Integer (- 2147483648)) (Integer (- 1)) = Inl Fault
   \<and> REPL (Suc (Suc (Suc (Suc n)))) (overflow_division # input) = Some (Killed
        \<lparr>objs =
           [Integer 1, Integer 0, Integer (- 1), Integer 1, Integer 2147483647,
            Integer 0, Integer (- 2147483647), Integer (- 2147483648)],
         cells = [], out = []\<rparr>)"
  by (simp add: REPL_def parse_overflow_division store_defs wrap_int_def is_int_def
      INT_MIN_def INT_MAX_def)

text \<open>
  On every other pair of machine integers \<open>a\<close> and \<open>b\<close> with \<open>b \<noteq> 0\<close> the division
  does what C3 says: it yields an Integer exactly when \<open>a mod b = 0\<close>, and it is then the
  exact quotient \<open>a div b\<close>; otherwise it yields the Rational of numerator \<open>a\<close> and
  denominator \<open>b\<close>. A zero Integer divisor and a Rational divisor with numerator zero
  raise an error whatever the dividend is, for a numeric dividend the error "Division by
  zero".
\<close>

theorem divideValues_closure:
  "(is_int a \<and> is_int b \<and> b \<noteq> 0 \<and> \<not> (a = INT_MIN \<and> b = - 1) \<longrightarrow>
      divideValues (Integer a) (Integer b) =
        Inr (if a mod b = 0 then Integer (a div b) else Rational a b)
      \<and> (a mod b = 0 \<longrightarrow> (a div b) * b = a))
   \<and> isl (divideValues v (Integer 0)) \<and> isl (divideValues v (Rational 0 d))
   \<and> (is_numeric v \<longrightarrow>
        divideValues v (Integer 0) = Inl (RuntimeError ''Division by zero'')
        \<and> divideValues v (Rational 0 d) = Inl (RuntimeError ''Division by zero''))"
proof (intro conjI impI)
  assume h: "is_int a \<and> is_int b \<and> b \<noteq> 0 \<and> \<not> (a = INT_MIN \<and> b = - 1)"
  show "divideValues (Integer a) (Integer b) =
        Inr (if a mod b = 0 then Integer (a div b) else Rational a b)"
  proof (cases "a mod b = 0")
    case True
    with h have "is_int (a div b)" by (intro exact_quotient_is_int) simp_all
    with True h show ?thesis by (simp add: smod_zero_iff sdiv_exact wrap_int_id)
  next
    case False
    with h show ?thesis by (simp add: smod_zero_iff)
  qed
next
  assume "a mod b = 0"
  then show "a div b * b = a" by auto
next
  show "isl (divideValues v (Integer 0))" by (cases v) simp_all
  show "isl (divideValues v (Rational 0 d))" by (cases v) simp_all
next
  assume "is_numeric v"
  then show "divideValues v (Integer 0) = Inl (RuntimeError ''Division by zero'')"
    by (cases v) (simp_all add: is_numeric_def)
next
  assume "is_numeric v"
  then show "divideValues v (Rational 0 d) = Inl (RuntimeError ''Division by zero'')"
    by (cases v) (simp_all add: is_numeric_def)
qed

theorem divideValues_closure_witness:
  "is_int 6 \<and> is_int (- 3) \<and> is_int (- 7) \<and> is_int 2 \<and> is_numeric (Rational 6 (- 3))
   \<and> divideValues (Integer 6) (Integer (- 3)) = Inr (Integer (- 2))
   \<and> divideValues (Integer (- 7)) (Integer 2) = Inr (Rational (- 7) 2)
   \<and> divideValues (Rational 6 (- 3)) (Integer 0) = Inl (RuntimeError ''Division by zero'')
   \<and> divideValues (Rational 6 (- 3)) (Rational 0 5) = Inl (RuntimeError ''Division by zero'')"
  using divideValues_closure [of 6 "- 3" "Rational 6 (- 3)" 5]
    divideValues_closure [of "- 7" 2 "Rational 6 (- 3)" 5]
  by (simp add: is_int_def INT_MIN_def INT_MAX_def is_numeric_def)

text \<open>
  C4. For numeric values \<open>a\<close> and \<open>b\<close> (each an Integer or a Rational), exactly one
  of the binary comparisons \<open><\<close>, \<open>=\<close>, \<open>>\<close> yields the Boolean true; the other two
  yield the Boolean false.
\<close>

theorem comparison_trichotomy:
  assumes "is_numeric a" "is_numeric b"
  shows "(Less_evalRator a b = Inr (Boolean True) \<and> Equal_evalRator a b = Inr (Boolean False)
           \<and> Greater_evalRator a b = Inr (Boolean False))
       \<or> (Less_evalRator a b = Inr (Boolean False) \<and> Equal_evalRator a b = Inr (Boolean True)
           \<and> Greater_evalRator a b = Inr (Boolean False))
       \<or> (Less_evalRator a b = Inr (Boolean False) \<and> Equal_evalRator a b = Inr (Boolean False)
           \<and> Greater_evalRator a b = Inr (Boolean True))"
proof -
  from compareNumericValues_sign [OF assms] obtain c
    where c: "compareNumericValues a b = Inr c" "c = - 1 \<or> c = 0 \<or> c = 1"
    by blast
  from c(2) show ?thesis
    by (auto simp: Less_evalRator_def Equal_evalRator_def Greater_evalRator_def c(1))
qed

theorem comparison_trichotomy_witness:
  "is_numeric (Rational 1 2) \<and> is_numeric (Integer 3)
   \<and> Less_evalRator (Rational 1 2) (Integer 3) = Inr (Boolean True)
   \<and> Equal_evalRator (Rational 1 2) (Integer 3) = Inr (Boolean False)
   \<and> Greater_evalRator (Rational 1 2) (Integer 3) = Inr (Boolean False)"
  using comparison_trichotomy [of "Rational 1 2" "Integer 3"]
  by (simp add: is_numeric_def Less_evalRator_def Equal_evalRator_def Greater_evalRator_def
      wrap_int_def)

text \<open>
  C5. \<open>and\<close> of no operands is the Boolean true. If the operands \<open>es\<close>, evaluated
  from left to right, all return values other than the Boolean false and the next operand
  \<open>x\<close> returns the Boolean false, then \<open>and\<close> returns a Boolean false in the state
  reached right after \<open>x\<close>, whatever the later operands \<open>rest\<close> are: none of them is
  evaluated. If \<open>x\<close> is the last operand and its value is not the Boolean false,
  \<open>and\<close> returns that value. If the operands \<open>es\<close> all return the Boolean false and
  the next operand \<open>x\<close> returns another value, \<open>or\<close> returns that value in the state
  reached right after \<open>x\<close>, whatever \<open>rest\<close> is; if all operands return the Boolean
  false, or there is none, \<open>or\<close> returns a Boolean false. (\<open>is_false v\<close> is
  \<open>v = Boolean False\<close>, lemma \<open>is_false_iff\<close>; \<open>AndVar::eval\<close> first builds a Boolean
  true, hence the starting state \<open>snd (BooleanV True s)\<close> of its operands.)
\<close>

theorem and_or_short_circuit:
  "eval (Suc n) (AndVar []) e s = ret (BooleanV True (snd (BooleanV True s)))
   \<and> (eval_all (\<lambda>v. \<not> is_false v) (eval n) es e (snd (BooleanV True s)) = Some s1
        \<and> eval n x e s1 = Some (Inr v, s2) \<and> is_false (deref s2 v)
      \<longrightarrow> eval (Suc n) (AndVar (es @ x # rest)) e s = ret (BooleanV False s2))
   \<and> (eval_all (\<lambda>v. \<not> is_false v) (eval n) es e (snd (BooleanV True s)) = Some s1
        \<and> eval n x e s1 = Some (Inr v, s2) \<and> \<not> is_false (deref s2 v)
      \<longrightarrow> eval (Suc n) (AndVar (es @ [x])) e s = Some (Inr v, s2))
   \<and> (eval_all is_false (eval n) es e s = Some s1
        \<and> eval n x e s1 = Some (Inr v, s2) \<and> \<not> is_false (deref s2 v)
      \<longrightarrow> eval (Suc n) (OrVar (es @ x # rest)) e s = Some (Inr v, s2))
   \<and> (eval_all is_false (eval n) es e s = Some s1
      \<longrightarrow> eval (Suc n) (OrVar es) e s = ret (BooleanV False s1))"
proof (intro conjI impI)
  show "eval (Suc n) (AndVar []) e s = ret (BooleanV True (snd (BooleanV True s)))"
    by (simp add: split_def Let_def bind_res_def ret_def)
next
  assume h: "eval_all (\<lambda>v. \<not> is_false v) (eval n) es e (snd (BooleanV True s)) = Some s1
        \<and> eval n x e s1 = Some (Inr v, s2) \<and> is_false (deref s2 v)"
  then have "and_loop (eval n) (es @ x # rest) e (fst (BooleanV True s)) (snd (BooleanV True s))
      = and_loop (eval n) (x # rest) e (fst (BooleanV True s)) s1"
    by (intro and_loop_prefix) simp
  with h show "eval (Suc n) (AndVar (es @ x # rest)) e s = ret (BooleanV False s2)"
    by (simp add: eval_AndVar bind_res_def ret_def del: eval.simps)
next
  assume h: "eval_all (\<lambda>v. \<not> is_false v) (eval n) es e (snd (BooleanV True s)) = Some s1
        \<and> eval n x e s1 = Some (Inr v, s2) \<and> \<not> is_false (deref s2 v)"
  then have "and_loop (eval n) (es @ [x]) e (fst (BooleanV True s)) (snd (BooleanV True s))
      = and_loop (eval n) [x] e (fst (BooleanV True s)) s1"
    by (intro and_loop_prefix) simp
  with h show "eval (Suc n) (AndVar (es @ [x])) e s = Some (Inr v, s2)"
    by (simp add: eval_AndVar bind_res_def ret_def del: eval.simps)
next
  assume h: "eval_all is_false (eval n) es e s = Some s1
        \<and> eval n x e s1 = Some (Inr v, s2) \<and> \<not> is_false (deref s2 v)"
  then have "or_loop (eval n) (es @ x # rest) e s = or_loop (eval n) (x # rest) e s1"
    by (intro or_loop_prefix) simp
  with h show "eval (Suc n) (OrVar (es @ x # rest)) e s = Some (Inr v, s2)"
    by (simp add: bind_res_def ret_def)
next
  assume h: "eval_all is_false (eval n) es e s = Some s1"
  from or_loop_prefix [OF h, of "[]"]
  show "eval (Suc n) (OrVar es) e s = ret (BooleanV False s1)"
    by simp
qed


theorem and_or_short_circuit_witness:
  "eval (Suc (Suc (Suc (Suc 0))))
     (AndVar [False_e, Begin [Unary Display (StringExpr ''y''), Fixnum 1]]) []
     \<lparr>objs = [], cells = [], out = []\<rparr>
   = Some (Inr 2, \<lparr>objs = [Boolean True, Boolean False, Boolean False], cells = [], out = []\<rparr>)
   \<and> eval (Suc (Suc (Suc (Suc 0)))) (AndVar [Fixnum 1, Fixnum 2]) []
     \<lparr>objs = [], cells = [], out = []\<rparr>
   = Some (Inr 2, \<lparr>objs = [Boolean True, Integer 1, Integer 2], cells = [], out = []\<rparr>)
   \<and> eval (Suc (Suc (Suc (Suc 0))))
     (OrVar [False_e, Begin [Unary Display (StringExpr ''x''), Fixnum 1],
             Unary Display (StringExpr ''z'')]) []
     \<lparr>objs = [], cells = [], out = []\<rparr>
   = Some (Inr 4, \<lparr>objs = [Boolean False, Void, String ''x'', Void, Integer 1], cells = [],
                   out = [Raw ''x'']\<rparr>)
   \<and> eval (Suc (Suc (Suc (Suc 0)))) (OrVar [False_e, False_e]) []
     \<lparr>objs = [], cells = [], out = []\<rparr>
   = Some (Inr 2, \<lparr>objs = [Boolean False, Boolean False, Boolean False], cells = [], out = []\<rparr>)"
  using
    and_or_short_circuit [of "Suc (Suc (Suc 0))" "[]" "\<lparr>objs = [], cells = [], out = []\<rparr>"
      "[]" "\<lparr>objs = [Boolean True], cells = [], out = []\<rparr>" False_e 1
      "\<lparr>objs = [Boolean True, Boolean False], cells = [], out = []\<rparr>"
      "[Begin [Unary Display (StringExpr ''y''), Fixnum 1]]"]
    and_or_short_circuit [of "Suc (Suc (Suc 0))" "[]" "\<lparr>objs = [], cells = [], out = []\<rparr>"
      "[Fixnum 1]" "\<lparr>objs = [Boolean True, Integer 1], cells = [], out = []\<rparr>" "Fixnum 2" 2
      "\<lparr>objs = [Boolean True, Integer 1, Integer 2], cells = [], out = []\<rparr>" "[]"]
    and_or_short_circuit [of "Suc (Suc (Suc 0))" "[]" "\<lparr>objs = [], cells = [], out = []\<rparr>"
      "[False_e]" "\<lparr>objs = [Boolean False], cells = [], out = []\<rparr>"
      "Begin [Unary Display (StringExpr ''x''), Fixnum 1]" 4
      "\<lparr>objs = [Boolean False, Void, String ''x'', Void, Integer 1], cells = [],
                   out = [Raw ''x'']\<rparr>"
      "[Unary Display (StringExpr ''z'')]"]
    and_or_short_circuit [of "Suc (Suc (Suc 0))" "[]" "\<lparr>objs = [], cells = [], out = []\<rparr>"
      "[False_e, False_e]" "\<lparr>objs = [Boolean False, Boolean False], cells = [], out = []\<rparr>"]
  by (simp add: store_defs is_false_def Display_evalRator_def)

text \<open>
  C6. \<open>let\<close> evaluates its binding expressions from left to right, every one of them
  in the outer environment \<open>e\<close>, whatever the bindings made so far, each value going
  into a new cell (\<open>let_bindings\<close>); it then evaluates the body in the chain that has one
  node for each binding, the last binding first, in front of \<open>e\<close>. There is one cell for
  each binding, so the new nodes carry exactly the names of the bindings.
\<close>

theorem Let_bindings_in_outer_environment:
  "eval (Suc n) (Let_e bind body) e s =
     bind_res (let_bindings (eval n) bind e s)
       (\<lambda>cs s1. eval n body (rev (zip (map fst bind) cs) @ e) s1)
   \<and> (let_bindings ev bind e s = Some (Inr cs, s')
      \<longrightarrow> length cs = length bind \<and> map fst (rev (zip (map fst bind) cs)) = rev (map fst bind))"
proof (intro conjI impI)
  show "eval (Suc n) (Let_e bind body) e s =
     bind_res (let_bindings (eval n) bind e s)
       (\<lambda>cs s1. eval n body (rev (zip (map fst bind) cs) @ e) s1)"
    by (simp add: let_loop_bindings [of "eval n"] bind_res_def ret_def
        split: option.splits sum.splits)
next
  assume "let_bindings ev bind e s = Some (Inr cs, s')"
  then show "length cs = length bind" by (rule let_bindings_length)
  then show "map fst (rev (zip (map fst bind) cs)) = rev (map fst bind)"
    by (simp add: rev_map [symmetric])
qed

theorem Let_bindings_in_outer_environment_witness:
  "let_bindings (eval (Suc 0)) [(''x'', Fixnum 2), (''y'', Fixnum 3)] []
     \<lparr>objs = [], cells = [], out = []\<rparr>
   = Some (Inr [0, 1], \<lparr>objs = [Integer 2, Integer 3], cells = [0, 1], out = []\<rparr>)
   \<and> length [0 :: nat, 1] = length [(''x'', Fixnum 2), (''y'', Fixnum 3)]
   \<and> eval (Suc (Suc (Suc 0)))
        (Let_e [(''x'', Fixnum 2), (''y'', Fixnum 3)] (Binary Plus_op (Var ''x'') (Var ''y''))) []
        \<lparr>objs = [], cells = [], out = []\<rparr>
      = Some (Inr 2, \<lparr>objs = [Integer 2, Integer 3, Integer 5], cells = [0, 1], out = []\<rparr>)
   \<and> eval (Suc (Suc (Suc 0))) (Let_e [(''x'', Fixnum 2), (''y'', Var ''x'')] (Var ''y'')) []
        \<lparr>objs = [], cells = [], out = []\<rparr>
      = Some (Inl (RuntimeError ''Undefined variable: x''),
              \<lparr>objs = [Integer 2], cells = [0], out = []\<rparr>)"
  using
    Let_bindings_in_outer_environment [of "Suc (Suc 0)" "[(''x'', Fixnum 2), (''y'', Fixnum 3)]"
        "Binary Plus_op (Var ''x'') (Var ''y'')" "[]" "\<lparr>objs = [], cells = [], out = []\<rparr>"
        "eval (Suc 0)" "[0, 1]" "\<lparr>objs = [Integer 2, Integer 3], cells = [0, 1], out = []\<rparr>"]
    Let_bindings_in_outer_environment [of "Suc (Suc 0)" "[(''x'', Fixnum 2), (''y'', Var ''x'')]" "Var ''y''" "[]"
        "\<lparr>objs = [], cells = [], out = []\<rparr>"
        "eval (Suc 0)" "[0, 1]" "\<lparr>objs = [Integer 2, Integer 3], cells = [0, 1], out = []\<rparr>"]
  by (simp add: store_defs primitives_def wrap_int_def)

text \<open>
  C7. Evaluating \<open>(quote X)\<close> returns, for every syntax \<open>X\<close>, a value that mirrors
  \<open>X\<close>; it only adds objects to the heap and leaves the cells of the environment and
  the output as they are, and its result is the same in every environment: nothing in
  \<open>X\<close> is evaluated, no symbol is looked up.
\<close>

theorem Quote_mirrors_syntax:
  "(\<exists>v s'. eval (Suc n) (Quote X) env s = Some (Inr v, s') \<and> mirrors s' v X
      \<and> (\<exists>ys. objs s' = objs s @ ys) \<and> cells s' = cells s \<and> out s' = out s)
   \<and> eval (Suc n) (Quote X) env s = eval (Suc m) (Quote X) env' s"
proof
  obtain v s' where q: "syntaxToValue X s = (v, s')" by (cases "syntaxToValue X s")
  from syntaxToValue_mirrors(1) [OF q] q
  show "\<exists>v s'. eval (Suc n) (Quote X) env s = Some (Inr v, s') \<and> mirrors s' v X
      \<and> (\<exists>ys. objs s' = objs s @ ys) \<and> cells s' = cells s \<and> out s' = out s"
    by (simp add: ret_def)
  show "eval (Suc n) (Quote X) env s = eval (Suc m) (Quote X) env' s" by simp
qed

text \<open>
  C8. For machine integers \<open>base\<close> and \<open>exponent\<close>, \<open>expt\<close> raises an error when the
  exponent is negative, when both are zero, and when \<open>base ^ exponent\<close> is not a
  machine integer; otherwise it returns the Integer \<open>base ^ exponent\<close>. With an
  operand that is not an Integer it raises an error.
\<close>

theorem Expt_evalRator_correct:
  "(is_int base \<and> is_int exponent \<longrightarrow>
      Expt_evalRator (Integer base) (Integer exponent) =
        (if exponent < 0
         then Inl (RuntimeError ''Negative exponent not supported for integers'')
         else if base = 0 \<and> exponent = 0 then Inl (RuntimeError ''0^0 is undefined'')
         else if is_int (base ^ nat exponent) then Inr (Integer (base ^ nat exponent))
         else Inl (RuntimeError ''Integer overflow in expt'')))
   \<and> (v_type rand1 \<noteq> V_INT \<or> v_type rand2 \<noteq> V_INT \<longrightarrow>
      Expt_evalRator rand1 rand2 = Inl (RuntimeError ''Wrong typename''))"
proof (intro conjI impI)
  assume a: "is_int base \<and> is_int exponent"
  show "Expt_evalRator (Integer base) (Integer exponent) =
        (if exponent < 0
         then Inl (RuntimeError ''Negative exponent not supported for integers'')
         else if base = 0 \<and> exponent = 0 then Inl (RuntimeError ''0^0 is undefined'')
         else if is_int (base ^ nat exponent) then Inr (Integer (base ^ nat exponent))
         else Inl (RuntimeError ''Integer overflow in expt''))"
  proof (cases "exponent < 0 \<or> (base = 0 \<and> exponent = 0)")
    case True
    then show ?thesis by (auto simp: Expt_evalRator_def)
  next
    case False
    then have e0: "0 \<le> exponent" by simp
    have one: "is_int 1" by (simp add: is_int_def INT_MIN_def INT_MAX_def)
    have "expt_loop 1 base exponent =
      (if is_int (1 * base ^ nat exponent) then Inr (1 * base ^ nat exponent)
       else Inl (RuntimeError ''Integer overflow in expt''))"
      using a by (intro expt_loop_correct [OF e0 one]) simp_all
    with False show ?thesis by (auto simp: Expt_evalRator_def wrap_int_id)
  qed
next
  assume "v_type rand1 \<noteq> V_INT \<or> v_type rand2 \<noteq> V_INT"
  then show "Expt_evalRator rand1 rand2 = Inl (RuntimeError ''Wrong typename'')"
    by (cases rand1; cases rand2) (simp_all add: Expt_evalRator_def)
qed

theorem Expt_evalRator_correct_witness:
  "Expt_evalRator (Integer 2) (Integer 10) = Inr (Integer 1024)
   \<and> Expt_evalRator (Integer (- 2)) (Integer 31) = Inr (Integer (- 2147483648))
   \<and> Expt_evalRator (Integer 2) (Integer 31) = Inl (RuntimeError ''Integer overflow in expt'')
   \<and> Expt_evalRator (Integer 2) (Integer (- 1)) =
         Inl (RuntimeError ''Negative exponent not supported for integers'')
   \<and> Expt_evalRator (Integer 0) (Integer 0) = Inl (RuntimeError ''0^0 is undefined'')
   \<and> Expt_evalRator (Rational 1 2) (Integer 2) = Inl (RuntimeError ''Wrong typename'')"
  using Expt_evalRator_correct [of 2 10 "Rational 1 2" "Integer 2"]
    Expt_evalRator_correct [of "- 2" 31 "Rational 1 2" "Integer 2"]
    Expt_evalRator_correct [of 2 31 "Rational 1 2" "Integer 2"]
    Expt_evalRator_correct [of 2 "- 1" "Rational 1 2" "Integer 2"]
    Expt_evalRator_correct [of 0 0 "Rational 1 2" "Integer 2"]
  by (simp add: is_int_def INT_MIN_def INT_MAX_def)

text \<open>
  C9. The empty list parses, in every environment, to the quotation of the empty list,
  and evaluating that returns a new Null object.
\<close>

theorem parse_empty_list:
  "parse (List []) env s = Inr (Quote (List []))
   \<and> eval (Suc n) (Quote (List [])) env s = ret (NullV s)
   \<and> deref (snd (NullV s)) (fst (NullV s)) = Null"
  by (simp add: store_defs)

text \<open>
  C10. \<open>number?\<close> yields the Boolean true exactly when the tag of its operand is
  Integer; for a Rational operand it yields the Boolean false.
\<close>

theorem IsFixnum_evalRator_tag:
  "IsFixnum_evalRator v = Boolean (v_type v = V_INT)
   \<and> (IsFixnum_evalRator v = Boolean True) = (\<exists>n. v = Integer n)
   \<and> IsFixnum_evalRator (Rational n d) = Boolean False"
  by (cases v) (simp_all add: IsFixnum_evalRator_def)

end
